theory Spec2Isabelle
  imports Main "HOL-Library.Char_ord" "HOL-Library.List_Lexorder"
begin

section \<open>Python values used by the accountability engine\<close>

text \<open>
  The engine of \<^verbatim>\<open>mcp_productivity_assistant.py\<close> works on one JSON document, the local
  calendar date and Python numbers. Exceptions are values of \<open>py_error\<close>; a function that
  may raise returns \<open>py_error + 'a\<close>, and a function that also touches the data file
  returns the file's new content next to its result.
\<close>

datatype py_error = ValueError | KeyError | TypeError

subsection \<open>Binary64 floating point\<close>

text \<open>
  A Python \<open>float\<close> is an IEEE 754 binary64 number. \<open>FP m e\<close> stands for \<open>m * 2 ^ e\<close>.
  Every operation computes the exact result as an integer times a power of two and
  rounds it to 53 significant bits, ties to even (\<open>rnd\<close>); results are kept with a
  mantissa of exactly 53 bits, zero as \<open>FP 0 0\<close>. The exponent is unbounded: overflow,
  subnormal numbers, signed zero, infinities and NaN are outside the model, none of
  which the engine's values (rates, scores, hours) come near.
\<close>

datatype fp = FP (mant: int) (expo: int)

function blen :: "int \<Rightarrow> int" where
  "blen n = (if n \<le> 0 then 0 else 1 + blen (n div 2))"
  by pat_completeness auto
termination
  by (relation "measure nat") auto

definition bitlen_abs :: "int \<Rightarrow> int" where
  "bitlen_abs m = blen \<bar>m\<bar>"

definition rnd :: "int \<Rightarrow> int \<Rightarrow> fp" where
  "rnd M E =
     (if M = 0 then FP 0 0
      else let k = bitlen_abs M - 53 in
        if k \<le> 0 then FP (M * 2 ^ nat (- k)) (E + k)
        else let q = M div 2 ^ nat k;
                 r = M mod 2 ^ nat k;
                 half = 2 ^ nat (k - 1);
                 q' = (if half < r \<or> (r = half \<and> odd q) then q + 1 else q)
             in if \<bar>q'\<bar> = 2 ^ 53 then FP (q' div 2) (E + k + 1) else FP q' (E + k))"

text \<open>
  The quotient \<open>n / d * 2 ^ E\<close> (\<open>0 < d\<close>), correctly rounded: the quotient is taken to at
  least 55 bits and a sticky bit records a non-zero remainder, so that \<open>rnd\<close> sees on
  which side of every rounding boundary the exact value lies.
\<close>

definition rnd_ratio :: "int \<Rightarrow> int \<Rightarrow> int \<Rightarrow> fp" where
  "rnd_ratio n d E =
     (if n = 0 then FP 0 0
      else let s = 55 + bitlen_abs d - bitlen_abs n;
               N = (if 0 \<le> s then n * 2 ^ nat s else n);
               D = (if 0 \<le> s then d else d * 2 ^ nat (- s));
               q = N div D;
               r = N mod D
           in rnd (2 * q + (if r = 0 then 0 else 1)) (E - s - 1))"

text \<open>A decimal literal of the source: \<open>0.3\<close> is \<open>dec 3 10\<close>, the double nearest to 3/10.\<close>

definition dec :: "int \<Rightarrow> int \<Rightarrow> fp" where
  "dec n d = rnd_ratio n d 0"

definition float_of_int :: "int \<Rightarrow> fp" where
  "float_of_int i = rnd i 0"

definition fadd :: "fp \<Rightarrow> fp \<Rightarrow> fp" where
  "fadd a b =
     (let e = min (expo a) (expo b)
      in rnd (mant a * 2 ^ nat (expo a - e) + mant b * 2 ^ nat (expo b - e)) e)"

definition fsub :: "fp \<Rightarrow> fp \<Rightarrow> fp" where
  "fsub a b =
     (let e = min (expo a) (expo b)
      in rnd (mant a * 2 ^ nat (expo a - e) - mant b * 2 ^ nat (expo b - e)) e)"

definition fmul :: "fp \<Rightarrow> fp \<Rightarrow> fp" where
  "fmul a b = rnd (mant a * mant b) (expo a + expo b)"

text \<open>Division; every division of the source is guarded against a zero divisor.\<close>

definition fdiv :: "fp \<Rightarrow> fp \<Rightarrow> fp" where
  "fdiv a b =
     (if mant b < 0 then rnd_ratio (- mant a) (- mant b) (expo a - expo b)
      else rnd_ratio (mant a) (mant b) (expo a - expo b))"

definition flt :: "fp \<Rightarrow> fp \<Rightarrow> bool" where
  "flt a b =
     (let e = min (expo a) (expo b)
      in mant a * 2 ^ nat (expo a - e) < mant b * 2 ^ nat (expo b - e))"

definition fle :: "fp \<Rightarrow> fp \<Rightarrow> bool" where
  "fle a b =
     (let e = min (expo a) (expo b)
      in mant a * 2 ^ nat (expo a - e) \<le> mant b * 2 ^ nat (expo b - e))"

definition round_half_even :: "int \<Rightarrow> int \<Rightarrow> int" where
  "round_half_even N D =
     (let q = N div D; r = N mod D
      in if D < 2 * r \<or> (2 * r = D \<and> odd q) then q + 1 else q)"

text \<open>
  \<open>round(x, 2)\<close>: the exact value of \<open>x\<close> is rounded to two decimals, ties to even, and
  the decimal result is converted back to the nearest double.
\<close>

definition round2 :: "fp \<Rightarrow> fp" where
  "round2 x =
     (let n = (if 0 \<le> expo x then 100 * mant x * 2 ^ nat (expo x)
               else round_half_even (100 * mant x) (2 ^ nat (- expo x)))
      in rnd_ratio n 100 0)"

text \<open>\<open>int(x)\<close>: truncation towards zero.\<close>

definition trunc_int :: "fp \<Rightarrow> int" where
  "trunc_int x =
     (if 0 \<le> expo x then mant x * 2 ^ nat (expo x)
      else sgn (mant x) * (\<bar>mant x\<bar> div 2 ^ nat (- expo x)))"

text \<open>\<open>max(0, x)\<close>, \<open>max(0.0, x)\<close> and \<open>min(1.0, x)\<close>.\<close>

definition fmax0 :: "fp \<Rightarrow> fp" where
  "fmax0 x = (if flt (FP 0 0) x then x else FP 0 0)"

definition fmin1 :: "fp \<Rightarrow> fp" where
  "fmin1 x = (if flt x (float_of_int 1) then x else float_of_int 1)"

text \<open>
  \<open>sum(xs) / len(xs)\<close> guarded by \<open>if xs\<close>, else \<open>0.0\<close>. \<open>sum\<close> starts from the integer 0
  and adds from left to right.
\<close>

definition fsum :: "fp list \<Rightarrow> fp" where
  "fsum xs = foldl fadd (FP 0 0) xs"

definition mean_or_zero :: "fp list \<Rightarrow> fp" where
  "mean_or_zero xs =
     (if xs = [] then FP 0 0 else fdiv (fsum xs) (float_of_int (int (length xs))))"

subsection \<open>Calendar dates\<close>

text \<open>
  \<open>datetime.date\<close>: a proleptic Gregorian date; \<open>toordinal\<close> counts days from
  0001-01-01 = 1, so \<open>(a - b).days\<close> is \<open>toordinal a - toordinal b\<close>.
\<close>

record date =
  year :: nat
  month :: nat
  day :: nat

definition is_leap :: "nat \<Rightarrow> bool" where
  "is_leap y = (y mod 4 = 0 \<and> (y mod 100 \<noteq> 0 \<or> y mod 400 = 0))"

definition days_in_month :: "nat \<Rightarrow> nat \<Rightarrow> nat" where
  "days_in_month y m =
     (if m = 2 \<and> is_leap y then 29
      else [31, 28, 31, 30, 31, 30, 31, 31, 30, 31, 30, 31] ! ((m - 1) mod 12))"

definition days_before_year :: "nat \<Rightarrow> int" where
  "days_before_year y =
     (let p = int y - 1 in p * 365 + p div 4 - p div 100 + p div 400)"

definition days_before_month :: "nat \<Rightarrow> nat \<Rightarrow> int" where
  "days_before_month y m =
     [0, 31, 59, 90, 120, 151, 181, 212, 243, 273, 304, 334] ! ((m - 1) mod 12)
       + (if 2 < m \<and> is_leap y then 1 else 0)"

definition toordinal :: "date \<Rightarrow> int" where
  "toordinal d = days_before_year (year d) + days_before_month (year d) (month d) + int (day d)"

definition valid_date :: "date \<Rightarrow> bool" where
  "valid_date d =
     (1 \<le> year d \<and> year d \<le> 9999 \<and> 1 \<le> month d \<and> month d \<le> 12 \<and>
      1 \<le> day d \<and> day d \<le> days_in_month (year d) (month d))"

definition days_between :: "date \<Rightarrow> date \<Rightarrow> int" where
  "days_between a b = toordinal a - toordinal b"

definition digit_char :: "nat \<Rightarrow> char" where
  "digit_char n = ''0123456789'' ! (n mod 10)"

text \<open>\<open>str(date)\<close> and \<open>strftime("%Y-%m-%d")\<close>: zero-padded \<open>YYYY-MM-DD\<close>.\<close>

definition isoformat :: "date \<Rightarrow> string" where
  "isoformat d =
     [digit_char (year d div 1000), digit_char (year d div 100),
      digit_char (year d div 10), digit_char (year d), CHR ''-'',
      digit_char (month d div 10), digit_char (month d), CHR ''-'',
      digit_char (day d div 10), digit_char (day d)]"

definition digit_val :: "char \<Rightarrow> nat option" where
  "digit_val c = map_of (zip ''0123456789'' [0, 1, 2, 3, 4, 5, 6, 7, 8, 9]) c"

text \<open>
  \<open>datetime.strptime(s, "%Y-%m-%d")\<close> matches
  \<^verbatim>\<open>(\d\d\d\d)-(1[0-2]|0[1-9]|[1-9])-(3[0-1]|[1-2]\d|0[1-9]|[1-9]| [1-9])\<close>
  against a prefix of \<open>s\<close>, alternatives in this order, and raises \<open>ValueError\<close> when
  there is no match, when text remains after the match, or when the numbers are not a
  date. After a two-character month the next character is \<open>-\<close> or the match fails, so
  the first alternative that matches is the only one to try.
\<close>

definition match_month :: "string \<Rightarrow> (nat \<times> string) option" where
  "match_month s =
     (case s of
        a # b # rest \<Rightarrow>
          (if a = CHR ''1'' \<and> b \<in> set ''012'' then Some (10 + the (digit_val b), rest)
           else if a = CHR ''0'' \<and> b \<in> set ''123456789'' then Some (the (digit_val b), rest)
           else if a \<in> set ''123456789'' then Some (the (digit_val a), b # rest)
           else None)
      | [a] \<Rightarrow> (if a \<in> set ''123456789'' then Some (the (digit_val a), []) else None)
      | [] \<Rightarrow> None)"

definition match_day :: "string \<Rightarrow> (nat \<times> string) option" where
  "match_day s =
     (case s of
        a # b # rest \<Rightarrow>
          (if a = CHR ''3'' \<and> b \<in> set ''01'' then Some (30 + the (digit_val b), rest)
           else if a \<in> set ''12'' \<and> b \<in> set ''0123456789''
             then Some (10 * the (digit_val a) + the (digit_val b), rest)
           else if a = CHR ''0'' \<and> b \<in> set ''123456789'' then Some (the (digit_val b), rest)
           else if a \<in> set ''123456789'' then Some (the (digit_val a), b # rest)
           else if a = CHR '' '' \<and> b \<in> set ''123456789'' then Some (the (digit_val b), rest)
           else None)
      | [a] \<Rightarrow> (if a \<in> set ''123456789'' then Some (the (digit_val a), []) else None)
      | [] \<Rightarrow> None)"

definition make_date :: "nat \<Rightarrow> nat \<Rightarrow> nat \<Rightarrow> py_error + date" where
  "make_date y m d =
     (if valid_date \<lparr>year = y, month = m, day = d\<rparr>
      then Inr \<lparr>year = y, month = m, day = d\<rparr> else Inl ValueError)"

definition strptime :: "string \<Rightarrow> py_error + date" where
  "strptime s =
     (case s of
        y1 # y2 # y3 # y4 # c # rest \<Rightarrow>
          (case (digit_val y1, digit_val y2, digit_val y3, digit_val y4) of
             (Some a1, Some a2, Some a3, Some a4) \<Rightarrow>
               (if c \<noteq> CHR ''-'' then Inl ValueError
                else case match_month rest of
                  Some (m, c2 # rest2) \<Rightarrow>
                    (if c2 \<noteq> CHR ''-'' then Inl ValueError
                     else case match_day rest2 of
                       Some (d, []) \<Rightarrow> make_date (1000 * a1 + 100 * a2 + 10 * a3 + a4) m d
                     | _ \<Rightarrow> Inl ValueError)
                | _ \<Rightarrow> Inl ValueError)
           | _ \<Rightarrow> Inl ValueError)
      | _ \<Rightarrow> Inl ValueError)"

text \<open>\<open>strftime("%A")\<close>: \<open>date.weekday()\<close> is \<open>(toordinal + 6) % 7\<close>, Monday first.\<close>

definition day_of_week :: "date \<Rightarrow> string" where
  "day_of_week d =
     [''Monday'', ''Tuesday'', ''Wednesday'', ''Thursday'', ''Friday'', ''Saturday'', ''Sunday'']
       ! nat ((toordinal d + 6) mod 7)"

section \<open>The document\<close>

text \<open>
  A JSON object with fixed keys is a record; a JSON object used as a dictionary (\<open>plan\<close>,
  \<open>reports\<close>, \<open>problem_tasks\<close>) is an association list in insertion order, as a Python
  \<open>dict\<close> is. \<open>last_task_date\<close> may be absent (\<open>None\<close>). A task keeps the two keys the
  engine reads; an entry of \<open>partial\<close> or \<open>skipped\<close> has a name and maybe a reason.
\<close>

record task =
  task_name :: string
  estimated_time :: "fp option"

record item =
  item_name :: string
  item_reason :: "string option"

record plan_entry =
  tasks :: "task list"
  plan_context :: string
  energy_level :: string
  total_time :: fp
  created_at :: string

record report_entry =
  completed :: "string list"
  partial :: "item list"
  skipped :: "item list"
  completion_rate :: fp
  reported_at :: string

record problem_task =
  skip_count :: int
  skip_reasons :: "string list"

record log_entry =
  log_date :: string
  log_reason :: string
  logged_at :: string

record analytics_data =
  problem_tasks :: "(string \<times> problem_task) list"
  last_7_days :: fp
  last_30_days :: fp
  dedication_percentage :: fp
  absence_counter :: int
  last_task_date :: "string option"
  semester_phase :: string
  consecutive_high_intensity_days :: int
  burnout_risk :: string
  absence_log :: "log_entry list"
  holidays_log :: "log_entry list"

record document =
  plan :: "(string \<times> plan_entry) list"
  reports :: "(string \<times> report_entry) list"
  long_term_tasks :: "(string \<times> string) list"
  analytics :: analytics_data

text \<open>\<open>d[k] = v\<close>: an existing key keeps its place, a new key goes to the end.\<close>

fun dict_set :: "'k \<Rightarrow> 'v \<Rightarrow> ('k \<times> 'v) list \<Rightarrow> ('k \<times> 'v) list" where
  "dict_set k v [] = [(k, v)]"
| "dict_set k v (p # ps) = (if fst p = k then (k, v) # ps else p # dict_set k v ps)"

definition dict_keys :: "('k \<times> 'v) list \<Rightarrow> 'k list" where
  "dict_keys d = map fst d"

definition get_default_data :: "date \<Rightarrow> document" where
  "get_default_data today =
     \<lparr>plan = [], reports = [], long_term_tasks = [],
      analytics =
        \<lparr>problem_tasks = [], last_7_days = FP 0 0, last_30_days = FP 0 0,
         dedication_percentage = dec 7 10, absence_counter = 0,
         last_task_date = Some (isoformat today), semester_phase = ''N/A'',
         consecutive_high_intensity_days = 0, burnout_risk = ''low'',
         absence_log = [], holidays_log = []\<rparr>\<rparr>"

section \<open>Analytics recalculation\<close>

text \<open>
  The data file is the state: a function that loads or saves it takes the stored
  document and returns the stored document after the call. \<open>today\<close> is
  \<open>datetime.now().date()\<close>, the same for every call within one operation.
\<close>

definition get_recent_reports :: "document \<Rightarrow> int \<Rightarrow> date \<Rightarrow> report_entry list" where
  "get_recent_reports data days today =
     map snd (filter (\<lambda>(date_str, r).
        case strptime date_str of
          Inr report_date \<Rightarrow> days_between today report_date < days
        | Inl _ \<Rightarrow> False) (reports data))"

text \<open>
  \<open>_update_absence_counter\<close> takes no argument: it loads the stored document, sets the
  counter there and saves it. A missing or empty \<open>last_task_date\<close> returns before the
  save; one that does not parse raises before it.
\<close>

definition update_absence_counter :: "date \<Rightarrow> document \<Rightarrow> (py_error + unit) \<times> document" where
  "update_absence_counter today stored =
     (case last_task_date (analytics stored) of
        None \<Rightarrow> (Inr (), stored)
      | Some last_task_date_str \<Rightarrow>
          if last_task_date_str = [] then (Inr (), stored)
          else case strptime last_task_date_str of
            Inl e \<Rightarrow> (Inl e, stored)
          | Inr d \<Rightarrow>
              (Inr (), stored\<lparr>analytics := (analytics stored)
                 \<lparr>absence_counter := max 0 (days_between today d - 1)\<rparr>\<rparr>))"

definition calculate_dedication_percentage :: "document \<Rightarrow> date \<Rightarrow> fp" where
  "calculate_dedication_percentage data today =
     (let a = analytics data;
          reports_14_days = get_recent_reports data 14 today;
          completion_rate_14_days = mean_or_zero (map completion_rate reports_14_days);
          unexplained_absences = absence_counter a;
          consistency_score =
            fmax0 (fsub (float_of_int 1) (fmul (float_of_int unexplained_absences) (dec 2 10)));
          high_intensity_task_days = consecutive_high_intensity_days a;
          intensity_factor =
            (if high_intensity_task_days \<le> 3 then float_of_int 1
             else fmax0 (fsub (float_of_int 1)
                    (fmul (float_of_int (high_intensity_task_days - 3)) (dec 25 100))));
          dedication =
            fadd (fadd (fmul completion_rate_14_days (dec 5 10))
                       (fmul consistency_score (dec 3 10)))
                 (fmul intensity_factor (dec 2 10))
      in round2 dedication)"

definition risk_band :: "fp \<Rightarrow> string" where
  "risk_band risk_score =
     (if fle (dec 8 10) risk_score then ''critical''
      else if fle (dec 6 10) risk_score then ''high''
      else if fle (dec 4 10) risk_score then ''medium''
      else ''low'')"

definition calculate_burnout_risk :: "document \<Rightarrow> string" where
  "calculate_burnout_risk data =
     (let a = analytics data;
          s0 = FP 0 0;
          intensity = consecutive_high_intensity_days a;
          s1 = (if 3 \<le> intensity then fadd s0 (dec 3 10) else s0);
          s2 = (if 5 \<le> intensity then fadd s1 (dec 2 10) else s1);
          s3 = (if flt (last_7_days a) (dec 6 10) then fadd s2 (dec 2 10) else s2);
          s4 = (if flt (dedication_percentage a) (dec 5 10) then fadd s3 (dec 1 10) else s3);
          phase = semester_phase a;
          s5 = (if phase \<in> set [''mid_semester'', ''late_semester'']
                then fadd s4 (dec 15 100) else s4);
          s6 = (if phase = ''finals_period'' then fadd s5 (dec 25 100) else s5);
          s7 = (if 2 < absence_counter a then fadd s6 (dec 1 10) else s6)
      in risk_band s7)"

text \<open>
  \<open>_update_full_analytics(data)\<close> changes the caller's \<open>data\<close> in place and returns it;
  its first statement, \<open>_update_absence_counter()\<close>, works on the stored document.
\<close>

definition update_full_analytics ::
  "document \<Rightarrow> date \<Rightarrow> document \<Rightarrow> (py_error + document) \<times> document" where
  "update_full_analytics data today stored =
     (case update_absence_counter today stored of
        (Inl e, stored') \<Rightarrow> (Inl e, stored')
      | (Inr _, stored') \<Rightarrow>
          (let avg_7 = mean_or_zero (map completion_rate (get_recent_reports data 7 today));
               avg_30 = mean_or_zero (map completion_rate (get_recent_reports data 30 today));
               data1 = data\<lparr>analytics := (analytics data)
                         \<lparr>last_7_days := round2 avg_7, last_30_days := round2 avg_30\<rparr>\<rparr>;
               data2 = data1\<lparr>analytics := (analytics data1)
                         \<lparr>dedication_percentage := calculate_dedication_percentage data1 today\<rparr>\<rparr>;
               data3 = data2\<lparr>analytics := (analytics data2)
                         \<lparr>burnout_risk := calculate_burnout_risk data2\<rparr>\<rparr>
           in (Inr data3, stored')))"

definition recommend_rest_or_light_day :: "document \<Rightarrow> date \<Rightarrow> py_error + string \<times> string" where
  "recommend_rest_or_light_day data today =
     (let a = analytics data;
          risk = burnout_risk a;
          intensity = consecutive_high_intensity_days a;
          by_risk =
            (if risk = ''critical''
               then (''MANDATORY_REST'', ''Critical burnout risk detected. Rest is required.'')
             else if risk = ''high''
               then (''RECOMMENDED_REST'', ''High burnout risk detected.'')
             else if risk = ''medium'' \<or> 3 \<le> intensity
               then (''RECOMMENDED_LIGHT_DAY'',
                     ''Burnout risk is medium or user has had 3+ high-intensity days.'')
             else (''PROCEED_NORMALLY'',
                   ''Analytics indicate user is ready for a productive day.''))
      in if holidays_log a = [] then Inr by_risk
         else case strptime (log_date (last (holidays_log a))) of
           Inl e \<Rightarrow> Inl e
         | Inr last_holiday_date \<Rightarrow>
             if days_between today last_holiday_date \<le> 2
             then Inr (''PROCEED_NORMALLY'', ''A day off was taken very recently.'')
             else Inr by_risk)"

section \<open>The tools\<close>

text \<open>
  Every tool starts with \<open>_load_data()\<close>: its \<open>data\<close> is the stored document. A tool
  returns its JSON answer as a value of a datatype, or the exception it raised, and the
  stored document it leaves behind.
\<close>

datatype readiness =
    BLOCKED string string "task list"
  | PLAN_EXIST string "(string \<times> plan_entry) list" string
  | ALREADY_REPORTED report_entry string
  | READY "string \<times> string" "(string \<times> string) list" string string int

text \<open>
  \<open>BLOCKED message unreported_date tasks\<close>, \<open>PLAN_EXIST message plan semester_phase\<close>,
  \<open>ALREADY_REPORTED report comment\<close> and
  \<open>READY rest_or_light_day long_term_tasks day_of_week semester_phase absence_counter\<close>
  (the constant \<open>instruction\<close> text is left out).
\<close>

definition status :: "readiness \<Rightarrow> string" where
  "status r =
     (case r of
        BLOCKED _ _ _ \<Rightarrow> ''BLOCKED''
      | PLAN_EXIST _ _ _ \<Rightarrow> ''PLAN_EXIST''
      | ALREADY_REPORTED _ _ \<Rightarrow> ''ALREADY_REPORTED''
      | READY _ _ _ _ _ \<Rightarrow> ''READY'')"

definition unreported_dates :: "document \<Rightarrow> string \<Rightarrow> string list" where
  "unreported_dates data today_str =
     sort (filter (\<lambda>date. date \<notin> set (dict_keys (reports data)) \<and> date < today_str)
             (dict_keys (plan data)))"

definition performance_comment :: "fp \<Rightarrow> string" where
  "performance_comment completion =
     (if fle (dec 9 10) completion then ''Excellent work! See you tomorrow.''
      else if fle (dec 75 100) completion then ''Good job, see you tomorrow.''
      else if fle (dec 5 10) completion then ''Decent effort, see you tomorrow.''
      else ''Try to improve tomorrow.'')"

definition check_readiness_for_planning ::
  "date \<Rightarrow> document \<Rightarrow> (py_error + readiness) \<times> document" where
  "check_readiness_for_planning today stored =
     (let data = stored;
          today_str = isoformat today
      in case unreported_dates data today_str of
           earliest # _ \<Rightarrow>
             (Inr (BLOCKED
                (''Unreported plan for '' @ earliest @ ''. Accountability check required.'')
                earliest
                (case map_of (plan data) earliest of Some p \<Rightarrow> tasks p | None \<Rightarrow> [])),
              stored)
         | [] \<Rightarrow>
             if today_str \<in> set (dict_keys (plan data)) then
               (Inr (PLAN_EXIST (''There is already a plan for today, '' @ today_str @ ''.'')
                  (plan data) (semester_phase (analytics data))), stored)
             else case map_of (reports data) today_str of
               Some r \<Rightarrow>
                 (Inr (ALREADY_REPORTED r (performance_comment (completion_rate r))), stored)
             | None \<Rightarrow>
                 (case update_full_analytics data today stored of
                    (Inl e, stored') \<Rightarrow> (Inl e, stored')
                  | (Inr data', stored') \<Rightarrow>
                      (case recommend_rest_or_light_day data' today of
                         Inl e \<Rightarrow> (Inl e, stored')
                       | Inr rest_or_light_day \<Rightarrow>
                           (Inr (READY rest_or_light_day (long_term_tasks data')
                              (day_of_week today) (semester_phase (analytics data'))
                              (absence_counter (analytics data'))), stored'))))"

definition get_recent_reports_tool :: "int \<Rightarrow> date \<Rightarrow> document \<Rightarrow> report_entry list \<times> document" where
  "get_recent_reports_tool days today stored = (get_recent_reports stored days today, stored)"

record report_args =
  arg_date :: string
  arg_completed :: "string list"
  arg_partial :: "item list"
  arg_skipped :: "item list"
  was_absent :: bool
  absence_reason :: string
  was_holiday :: bool
  holiday_reason :: string

datatype report_result =
    HolidayLogged string
  | AbsenceLogged
  | NoPlanFound string
  | ReportLogged fp "string list"

text \<open>
  \<open>HolidayLogged date\<close> and \<open>AbsenceLogged\<close> are the two status answers,
  \<open>NoPlanFound date\<close> is the \<open>{"error": "No plan found for date ..."}\<close> answer, and
  \<open>ReportLogged new_dedication triggered_patterns\<close> the answer of a normal report.
\<close>

text \<open>\<open>task["name"].split(" ")[0]\<close>: the name up to its first space character.\<close>

definition task_name_base :: "string \<Rightarrow> string" where
  "task_name_base name = takeWhile (\<lambda>c. c \<noteq> CHR '' '') name"

definition pattern_alert :: "string \<Rightarrow> string" where
  "pattern_alert base = ''3rd_skip_pattern for '' @ base"

text \<open>One pass of the loop over \<open>skipped\<close>, on \<open>problem_tasks\<close> and \<open>triggered_patterns\<close>.\<close>

definition skip_step ::
  "item \<Rightarrow> (string \<times> problem_task) list \<times> string list
     \<Rightarrow> (string \<times> problem_task) list \<times> string list" where
  "skip_step t st =
     (let pt = fst st;
          triggered_patterns = snd st;
          base = task_name_base (item_name t);
          pt1 = (if base \<notin> set (dict_keys pt)
                 then dict_set base \<lparr>skip_count = 0, skip_reasons = []\<rparr> pt else pt);
          old = (case map_of pt1 base of
                   Some e \<Rightarrow> e | None \<Rightarrow> \<lparr>skip_count = 0, skip_reasons = []\<rparr>);
          counted = old\<lparr>skip_count := skip_count old + 1\<rparr>;
          new = counted\<lparr>skip_reasons := skip_reasons counted @
                  [case item_reason t of Some r \<Rightarrow> r | None \<Rightarrow> ''unknown'']\<rparr>;
          pt2 = dict_set base new pt1
      in (pt2, if 3 \<le> skip_count new
               then triggered_patterns @ [pattern_alert base] else triggered_patterns))"

fun skip_loop ::
  "item list \<Rightarrow> (string \<times> problem_task) list \<times> string list
     \<Rightarrow> (string \<times> problem_task) list \<times> string list" where
  "skip_loop [] st = st"
| "skip_loop (t # ts) st = skip_loop ts (skip_step t st)"

text \<open>\<open>len(completed) / total_tasks\<close>: the quotient of two integers, correctly rounded.\<close>

definition int_truediv :: "int \<Rightarrow> int \<Rightarrow> fp" where
  "int_truediv a b = rnd_ratio a b 0"

definition datetime_isoformat :: "date \<Rightarrow> string \<Rightarrow> string" where
  "datetime_isoformat today time_of_day = isoformat today @ ''T'' @ time_of_day"

definition report ::
  "report_args \<Rightarrow> date \<Rightarrow> string \<Rightarrow> document \<Rightarrow> (py_error + report_result) \<times> document" where
  "report args today time_of_day stored =
     (let data = stored;
          today_str = isoformat today;
          date = arg_date args
      in if was_holiday args then
           (let a = analytics data;
                data' = data\<lparr>analytics := a
                  \<lparr>holidays_log := holidays_log a @
                     [\<lparr>log_date = date, log_reason = holiday_reason args, logged_at = today_str\<rparr>],
                   consecutive_high_intensity_days := 0\<rparr>\<rparr>
            in (Inr (HolidayLogged date), data'))
         else if was_absent args then
           (let a = analytics data;
                data' = data\<lparr>analytics := a
                  \<lparr>absence_log := absence_log a @
                     [\<lparr>log_date = date, log_reason = absence_reason args, logged_at = today_str\<rparr>],
                   consecutive_high_intensity_days := 0\<rparr>\<rparr>
            in (Inr AbsenceLogged, data'))
         else case map_of (plan data) date of
           None \<Rightarrow> (Inr (NoPlanFound date), stored)
         | Some original_plan \<Rightarrow>
             (let total_tasks = int (length (tasks original_plan));
                  rate = (if 0 < total_tasks
                          then int_truediv (int (length (arg_completed args))) total_tasks
                          else FP 0 0);
                  data1 = data\<lparr>reports := dict_set date
                            \<lparr>completed = arg_completed args, partial = arg_partial args,
                             skipped = arg_skipped args, completion_rate = round2 rate,
                             reported_at = datetime_isoformat today time_of_day\<rparr>
                            (reports data)\<rparr>;
                  looped = skip_loop (arg_skipped args) (problem_tasks (analytics data1), []);
                  data2 = data1\<lparr>analytics := (analytics data1)\<lparr>problem_tasks := fst looped\<rparr>\<rparr>
              in case update_full_analytics data2 today stored of
                   (Inl e, stored') \<Rightarrow> (Inl e, stored')
                 | (Inr data3, stored') \<Rightarrow>
                     (Inr (ReportLogged (dedication_percentage (analytics data3)) (snd looped)),
                      data3)))"

definition set_daily_plan ::
  "string \<Rightarrow> task list \<Rightarrow> string \<Rightarrow> string \<Rightarrow> date \<Rightarrow> string \<Rightarrow> document
     \<Rightarrow> plan_entry \<times> document" where
  "set_daily_plan date task_list ctx energy today time_of_day stored =
     (let data = stored;
          plan_data =
            \<lparr>tasks = task_list, plan_context = ctx, energy_level = energy,
             total_time = fsum (map (\<lambda>t. case estimated_time t of
                                             Some h \<Rightarrow> h | None \<Rightarrow> FP 0 0) task_list),
             created_at = datetime_isoformat today time_of_day\<rparr>;
          data1 = data\<lparr>plan := [(date, plan_data)]\<rparr>;
          a = analytics data1;
          a1 = a\<lparr>last_task_date := Some date, absence_counter := 0\<rparr>;
          a2 = (if ctx = ''hectic'' \<or> flt (float_of_int 5) (total_time plan_data)
                then a1\<lparr>consecutive_high_intensity_days :=
                          consecutive_high_intensity_days a1 + 1\<rparr>
                else a1\<lparr>consecutive_high_intensity_days := 0\<rparr>)
      in (plan_data, data1\<lparr>analytics := a2\<rparr>))"

definition get_analytics_context ::
  "date \<Rightarrow> document \<Rightarrow> (py_error + analytics_data) \<times> document" where
  "get_analytics_context today stored =
     (case update_full_analytics stored today stored of
        (Inl e, stored') \<Rightarrow> (Inl e, stored')
      | (Inr data, stored') \<Rightarrow> (Inr (analytics data), data))"

definition valid_phases :: "string list" where
  "valid_phases =
     [''early_semester'', ''mid_semester'', ''late_semester'', ''finals_period'',
      ''semester_break'']"

datatype phase_result = InvalidPhase | PhaseUpdated string

definition update_semester_phase :: "string \<Rightarrow> document \<Rightarrow> phase_result \<times> document" where
  "update_semester_phase phase stored =
     (if phase \<notin> set valid_phases then (InvalidPhase, stored)
      else (PhaseUpdated phase,
            stored\<lparr>analytics := (analytics stored)\<lparr>semester_phase := phase\<rparr>\<rparr>))"

definition show_long_term_tasks :: "document \<Rightarrow> (string \<times> string) list \<times> document" where
  "show_long_term_tasks stored = (long_term_tasks stored, stored)"

definition edit_long_term_tasks ::
  "(string \<times> string) list \<Rightarrow> document \<Rightarrow> (string \<times> string) list \<times> document" where
  "edit_long_term_tasks new_tasks stored = (new_tasks, stored\<lparr>long_term_tasks := new_tasks\<rparr>)"

datatype reason =
    DedicationAt int
  | PhaseCritical
  | PhaseEarly
  | SemesterBreak
  | RecentDayOff
  | BurnoutHigh

definition validate_day_off_request ::
  "date \<Rightarrow> document \<Rightarrow> (py_error + fp \<times> reason list) \<times> document" where
  "validate_day_off_request today stored =
     (case update_full_analytics stored today stored of
        (Inl e, stored') \<Rightarrow> (Inl e, stored')
      | (Inr data, stored') \<Rightarrow>
          (let a = analytics data;
               dedication = dedication_percentage a;
               score1 = fadd (dec 5 10) (fmul (fsub dedication (dec 7 10)) (dec 5 10));
               reasons1 = [DedicationAt (trunc_int (fmul dedication (float_of_int 100)))];
               phase = semester_phase a;
               score2 =
                 (if phase \<in> set [''mid_semester'', ''late_semester'', ''finals_period'']
                    then fadd score1 (dec 2 10)
                  else if phase = ''early_semester'' then fsub score1 (dec 2 10)
                  else if phase = ''semester_break'' then fadd score1 (dec 2 10)
                  else score1);
               reasons2 =
                 (if phase \<in> set [''mid_semester'', ''late_semester'', ''finals_period'']
                    then reasons1 @ [PhaseCritical]
                  else if phase = ''early_semester'' then reasons1 @ [PhaseEarly]
                  else if phase = ''semester_break'' then reasons1 @ [SemesterBreak]
                  else reasons1);
               finish = (\<lambda>score reasons.
                 (let high = burnout_risk a \<in> set [''high'', ''critical''];
                      score' = (if high then fadd score (dec 3 10) else score);
                      reasons' = (if high then reasons @ [BurnoutHigh] else reasons)
                  in (round2 (fmax0 (fmin1 score')), reasons')))
           in if holidays_log a = [] then (Inr (finish score2 reasons2), stored')
              else case strptime (log_date (last (holidays_log a))) of
                Inl e \<Rightarrow> (Inl e, stored')
              | Inr last_holiday_date \<Rightarrow>
                  if days_between today last_holiday_date \<le> 4
                  then (Inr (finish (fsub score2 (dec 4 10)) (reasons2 @ [RecentDayOff])), stored')
                  else (Inr (finish score2 reasons2), stored')))"

section \<open>Definitions used by the properties\<close>

text \<open>
  The dates that block planning, in the words of the specification: the keys of \<open>plan\<close>
  strictly before today that have no entry in \<open>reports\<close>. Keys are compared as the code
  compares them, as strings; on zero-padded ISO dates that is the order of the calendar.
\<close>

definition blocking_dates :: "document \<Rightarrow> string \<Rightarrow> string set" where
  "blocking_dates data today_str =
     {date \<in> set (dict_keys (plan data)).
        date < today_str \<and> date \<notin> set (dict_keys (reports data))}"

text \<open>Example data for the scenarios.\<close>

definition jan :: "nat \<Rightarrow> date" where
  "jan d = \<lparr>year = 2025, month = 1, day = d\<rparr>"

definition example_plan :: plan_entry where
  "example_plan =
     \<lparr>tasks = [\<lparr>task_name = ''Math homework'', estimated_time = Some (float_of_int 2)\<rparr>],
      plan_context = ''normal'', energy_level = ''high'',
      total_time = float_of_int 2, created_at = ''2025-01-01T08:00:00''\<rparr>"

definition blocked_document :: document where
  "blocked_document = (get_default_data (jan 1))\<lparr>plan := [(''2025-01-01'', example_plan)]\<rparr>"

text \<open>
  The dedication formula of the specification, on the 14-day completion rate, an
  absence counter and the intensity factor:
  \<open>round(0.5 * rate + 0.3 * max(0, 1.0 - 0.2 * absence) + 0.2 * intensity_factor, 2)\<close>.
\<close>

definition dedication_formula :: "fp \<Rightarrow> int \<Rightarrow> fp \<Rightarrow> fp" where
  "dedication_formula completion_rate_14d absence intensity_factor =
     round2 (fadd (fadd (fmul (dec 5 10) completion_rate_14d)
                    (fmul (dec 3 10)
                       (fmax0 (fsub (float_of_int 1) (fmul (dec 2 10) (float_of_int absence))))))
               (fmul (dec 2 10) intensity_factor))"

text \<open>
  The window of the specification: the reports whose date \<open>d\<close> parses and satisfies
  \<open>0 \<le> today - d < window\<close>.
\<close>

definition reports_in_window :: "document \<Rightarrow> int \<Rightarrow> date \<Rightarrow> report_entry list" where
  "reports_in_window data window today =
     map snd (filter (\<lambda>(date_str, r).
        case strptime date_str of
          Inr d \<Rightarrow> 0 \<le> days_between today d \<and> days_between today d < window
        | Inl _ \<Rightarrow> False) (reports data))"

definition example_report :: "fp \<Rightarrow> report_entry" where
  "example_report rate =
     \<lparr>completed = [''Math homework''], partial = [], skipped = [],
      completion_rate = rate, reported_at = ''2025-01-03T21:00:00''\<rparr>"

text \<open>A report filed on 2025-01-03 for the plan of 2025-01-05.\<close>

definition future_report_document :: document where
  "future_report_document =
     (get_default_data (jan 3))\<lparr>reports := [(''2025-01-05'', example_report (float_of_int 1))]\<rparr>"

text \<open>
  The three assignments of \<open>_update_full_analytics\<close> after its first statement, one by
  one, and their composition: the document it returns when that statement does not
  raise.
\<close>

definition with_trends :: "document \<Rightarrow> date \<Rightarrow> document" where
  "with_trends data today =
     data\<lparr>analytics := (analytics data)
       \<lparr>last_7_days :=
          round2 (mean_or_zero (map completion_rate (get_recent_reports data 7 today))),
        last_30_days :=
          round2 (mean_or_zero (map completion_rate (get_recent_reports data 30 today)))\<rparr>\<rparr>"

definition with_dedication :: "document \<Rightarrow> date \<Rightarrow> document" where
  "with_dedication data today =
     data\<lparr>analytics := (analytics data)
       \<lparr>dedication_percentage := calculate_dedication_percentage data today\<rparr>\<rparr>"

definition with_burnout_risk :: "document \<Rightarrow> document" where
  "with_burnout_risk data =
     data\<lparr>analytics := (analytics data)\<lparr>burnout_risk := calculate_burnout_risk data\<rparr>\<rparr>"

definition recalculated :: "document \<Rightarrow> date \<Rightarrow> document" where
  "recalculated data today = with_burnout_risk (with_dedication (with_trends data today) today)"

text \<open>\<open>last_task_date\<close> is absent, empty or a date: the recalculation does not raise.\<close>

definition last_task_date_parses :: "document \<Rightarrow> bool" where
  "last_task_date_parses d =
     (case last_task_date (analytics d) of
        None \<Rightarrow> True
      | Some s \<Rightarrow> s = [] \<or> (case strptime s of Inr _ \<Rightarrow> True | Inl _ \<Rightarrow> False))"

text \<open>
  Reading \<open>problem_tasks\<close>: the skip count and the reasons recorded under a key (0 and
  none where the key is absent), the skipped entries of a report that fall under a
  key, and the reason the loop records for an entry.
\<close>

definition skips_of :: "(string \<times> problem_task) list \<Rightarrow> string \<Rightarrow> int" where
  "skips_of pt k = (case map_of pt k of Some e \<Rightarrow> skip_count e | None \<Rightarrow> 0)"

definition reasons_of :: "(string \<times> problem_task) list \<Rightarrow> string \<Rightarrow> string list" where
  "reasons_of pt k = (case map_of pt k of Some e \<Rightarrow> skip_reasons e | None \<Rightarrow> [])"

definition skipped_with_key :: "item list \<Rightarrow> string \<Rightarrow> item list" where
  "skipped_with_key ts k = filter (\<lambda>t. task_name_base (item_name t) = k) ts"

definition reason_or_unknown :: "item \<Rightarrow> string" where
  "reason_or_unknown t = (case item_reason t of Some r \<Rightarrow> r | None \<Rightarrow> ''unknown'')"

text \<open>
  The first whitespace-delimited token of a name, as the specification words it: the
  name without leading whitespace, up to the next whitespace character.
\<close>

definition whitespace :: "char list" where
  "whitespace = [CHR '' '', CHR 0x09, CHR 0x0A, CHR 0x0B, CHR 0x0C, CHR 0x0D]"

definition first_whitespace_token :: "string \<Rightarrow> string" where
  "first_whitespace_token name =
     takeWhile (\<lambda>c. c \<notin> set whitespace) (dropWhile (\<lambda>c. c \<in> set whitespace) name)"

text \<open>
  Example data for the report scenarios: a plan for 2025-02-01 with the named tasks,
  on the document of a fresh start on that day, and a normal report for that date.
\<close>

definition named_task :: "string \<Rightarrow> task" where
  "named_task n = \<lparr>task_name = n, estimated_time = Some (float_of_int 1)\<rparr>"

definition plan_of_tasks :: "string list \<Rightarrow> plan_entry" where
  "plan_of_tasks names =
     \<lparr>tasks = map named_task names, plan_context = ''normal'', energy_level = ''high'',
      total_time = fsum (map (\<lambda>n. float_of_int 1) names),
      created_at = ''2025-02-01T08:00:00''\<rparr>"

definition feb_1 :: date where
  "feb_1 = \<lparr>year = 2025, month = 2, day = 1\<rparr>"

definition planned_document :: "string list \<Rightarrow> (string \<times> problem_task) list \<Rightarrow> document" where
  "planned_document names pt =
     (get_default_data feb_1)
       \<lparr>plan := [(''2025-02-01'', plan_of_tasks names)],
        analytics := (analytics (get_default_data feb_1))\<lparr>problem_tasks := pt\<rparr>\<rparr>"

definition normal_report :: "string list \<Rightarrow> item list \<Rightarrow> report_args" where
  "normal_report done skips =
     \<lparr>arg_date = ''2025-02-01'', arg_completed = done, arg_partial = [],
      arg_skipped = skips, was_absent = False, absence_reason = [],
      was_holiday = False, holiday_reason = []\<rparr>"

text \<open>What a call to \<open>report\<close> left and answered: the stored rate for a date, the alerts.\<close>

definition stored_rate :: "document \<Rightarrow> string \<Rightarrow> fp option" where
  "stored_rate d date = map_option completion_rate (map_of (reports d) date)"

definition alerts_of :: "py_error + report_result \<Rightarrow> string list" where
  "alerts_of r = (case r of Inr (ReportLogged _ alerts) \<Rightarrow> alerts | _ \<Rightarrow> [])"

definition tab_name :: string where
  "tab_name = ''Math'' @ [CHR 0x09] @ ''quiz''"

definition math_skip :: item where
  "math_skip = \<lparr>item_name = ''Math quiz'', item_reason = Some ''too hard''\<rparr>"

text \<open>
  The nine tools as calls, and the stored document a call leaves: a call that raises
  leaves what it had saved before raising.
\<close>

datatype tool_call =
    CheckReadiness
  | GetRecentReports int
  | Report report_args
  | SetDailyPlan string "task list" string string
  | GetAnalyticsContext
  | UpdateSemesterPhase string
  | ShowLongTermTasks
  | EditLongTermTasks "(string \<times> string) list"
  | ValidateDayOffRequest

definition stored_after :: "tool_call \<Rightarrow> date \<Rightarrow> string \<Rightarrow> document \<Rightarrow> document" where
  "stored_after call today time_of_day stored =
     (case call of
        CheckReadiness \<Rightarrow> snd (check_readiness_for_planning today stored)
      | GetRecentReports days \<Rightarrow> snd (get_recent_reports_tool days today stored)
      | Report args \<Rightarrow> snd (report args today time_of_day stored)
      | SetDailyPlan date task_list ctx energy \<Rightarrow>
          snd (set_daily_plan date task_list ctx energy today time_of_day stored)
      | GetAnalyticsContext \<Rightarrow> snd (get_analytics_context today stored)
      | UpdateSemesterPhase phase \<Rightarrow> snd (update_semester_phase phase stored)
      | ShowLongTermTasks \<Rightarrow> snd (show_long_term_tasks stored)
      | EditLongTermTasks new_tasks \<Rightarrow> snd (edit_long_term_tasks new_tasks stored)
      | ValidateDayOffRequest \<Rightarrow> snd (validate_day_off_request today stored))"

text \<open>A sequence of calls, each at its own date and time of day.\<close>

fun run_calls :: "(tool_call \<times> date \<times> string) list \<Rightarrow> document \<Rightarrow> document" where
  "run_calls [] stored = stored"
| "run_calls ((call, today, time_of_day) # calls) stored =
     run_calls calls (stored_after call today time_of_day stored)"

definition is_set_daily_plan :: "tool_call \<Rightarrow> bool" where
  "is_set_daily_plan call = (case call of SetDailyPlan _ _ _ _ \<Rightarrow> True | _ \<Rightarrow> False)"

text \<open>
  A holiday of several days, logged as the docstring of \<open>report\<close> asks: one entry whose
  date is the range.
\<close>

definition jul_24 :: date where
  "jul_24 = \<lparr>year = 2025, month = 7, day = 24\<rparr>"

definition range_holiday :: report_args where
  "range_holiday =
     \<lparr>arg_date = ''2025-07-15 to 2025-07-23'', arg_completed = [], arg_partial = [],
      arg_skipped = [], was_absent = False, absence_reason = [],
      was_holiday = True, holiday_reason = ''summer trip''\<rparr>"

definition after_range_holiday :: document where
  "after_range_holiday =
     (get_default_data jul_24)\<lparr>analytics := (analytics (get_default_data jul_24))
        \<lparr>holidays_log := [\<lparr>log_date = ''2025-07-15 to 2025-07-23'',
            log_reason = ''summer trip'', logged_at = ''2025-07-24''\<rparr>]\<rparr>\<rparr>"

text \<open>The last \<open>k\<close> decimal digits of a number, most significant first.\<close>

fun digits :: "nat \<Rightarrow> nat \<Rightarrow> string" where
  "digits 0 n = []"
| "digits (Suc k) n = digits k (n div 10) @ [digit_char n]"

text \<open>The length of a year, and the order of the calendar on year, month and day.\<close>

definition days_in_year :: "nat \<Rightarrow> int" where
  "days_in_year y = (if is_leap y then 366 else 365)"

definition date_before :: "date \<Rightarrow> date \<Rightarrow> bool" where
  "date_before a b =
     (year a < year b \<or> (year a = year b \<and>
       (month a < month b \<or> (month a = month b \<and> day a < day b))))"

text \<open>
  The burnout score in the words of the specification, in decimal arithmetic: the
  contributions are hundredths (0.3 is 30), those whose condition holds are added
  exactly, and the bands start at 0.8, 0.6 and 0.4. The two conditions on the trend
  and on the dedication compare the stored numbers with 0.6 and 0.5.
\<close>

definition decimal_contributions ::
  "int \<Rightarrow> bool \<Rightarrow> bool \<Rightarrow> string \<Rightarrow> int \<Rightarrow> (bool \<times> int) list" where
  "decimal_contributions intensity trend_below dedication_below phase absence =
     [(3 \<le> intensity, 30),
      (5 \<le> intensity, 20),
      (trend_below, 20),
      (dedication_below, 10),
      (phase = ''mid_semester'' \<or> phase = ''late_semester'', 15),
      (phase = ''finals_period'', 25),
      (2 < absence, 10)]"

definition decimal_score :: "(bool \<times> int) list \<Rightarrow> int" where
  "decimal_score cs = sum_list (map snd (filter fst cs))"

definition decimal_band :: "int \<Rightarrow> string" where
  "decimal_band score =
     (if 80 \<le> score then ''critical''
      else if 60 \<le> score then ''high''
      else if 40 \<le> score then ''medium''
      else ''low'')"

definition claimed_burnout_risk :: "analytics_data \<Rightarrow> string" where
  "claimed_burnout_risk a =
     decimal_band (decimal_score (decimal_contributions
       (consecutive_high_intensity_days a)
       (flt (last_7_days a) (dec 6 10))
       (flt (dedication_percentage a) (dec 5 10))
       (semester_phase a) (absence_counter a)))"

text \<open>
  Five hectic plans on five days in a row, from the default document, nothing
  reported.
\<close>

definition hectic_plan :: "string \<Rightarrow> nat \<Rightarrow> tool_call \<times> date \<times> string" where
  "hectic_plan date_str d = (SetDailyPlan date_str [] ''hectic'' ''high'', jan d, ''08:00:00'')"

definition five_hectic_plans :: document where
  "five_hectic_plans =
     run_calls
       [hectic_plan ''2025-01-01'' 1, hectic_plan ''2025-01-02'' 2, hectic_plan ''2025-01-03'' 3,
        hectic_plan ''2025-01-04'' 4, hectic_plan ''2025-01-05'' 5]
       (get_default_data (jan 1))"

section \<open>Binary64 arithmetic on known values\<close>

text \<open>
  The doubles nearest to 0.1, 0.3 and 0.8; \<open>0.1 + 0.2\<close>, which is not the double 0.3;
  \<open>round(0.125, 2) = 0.12\<close>, a tie that goes to the even digit; \<open>int(0.29 * 100) = 28\<close>.
\<close>

lemma binary64_values:
  "dec 1 10 = FP 7205759403792794 (- 56)"
  "dec 3 10 = FP 5404319552844595 (- 54)"
  "dec 8 10 = FP 7205759403792794 (- 53)"
  "fadd (dec 1 10) (dec 2 10) = FP 5404319552844596 (- 54)"
  "round2 (dec 125 1000) = dec 12 100"
  "trunc_int (fmul (dec 29 100) (float_of_int 100)) = 28"
  by code_simp+

section \<open>ISO dates: the order of the strings is the order of the calendar\<close>

lemma digit_range: "n < 10 \<Longrightarrow> n \<in> {0, 1, 2, 3, 4, 5, 6, 7, 8, 9::nat}"
  by simp arith

lemma of_char_digit_char: "of_char (digit_char n) = (48 + n mod 10 :: nat)"
proof -
  have "n mod 10 < 10" by simp
  from digit_range[OF this] show ?thesis
    by (auto simp: digit_char_def)
qed

lemma digit_char_less: "(digit_char m < digit_char n) = (m mod 10 < n mod 10)"
  by (simp add: less_char_def of_char_digit_char)

lemma digit_char_eq: "(digit_char m = digit_char n) = (m mod 10 = n mod 10)"
proof
  assume "digit_char m = digit_char n"
  then have "(of_char (digit_char m) :: nat) = of_char (digit_char n)" by simp
  then show "m mod 10 = n mod 10" by (simp add: of_char_digit_char)
next
  assume "m mod 10 = n mod 10"
  then show "digit_char m = digit_char n" by (simp add: digit_char_def)
qed

lemma two_digit_less:
  "b < 10 \<Longrightarrow> d < 10 \<Longrightarrow> (10 * a + b < 10 * c + d) = (a < c \<or> (a = c \<and> b < d))"
  for a b c d :: nat
  by linarith

lemma two_digit_eq:
  "b < 10 \<Longrightarrow> d < 10 \<Longrightarrow> (10 * a + b = 10 * c + d) = (a = c \<and> b = d)"
  for a b c d :: nat
proof -
  assume b: "b < 10" and d: "d < 10"
  have "(10 * a + b = 10 * c + d) =
      (\<not> 10 * a + b < 10 * c + d \<and> \<not> 10 * c + d < 10 * a + b)"
    using linorder_less_linear[of "10 * a + b" "10 * c + d"] by fastforce
  also have "\<dots> = (\<not> (a < c \<or> (a = c \<and> b < d)) \<and> \<not> (c < a \<or> (c = a \<and> d < b)))"
    by (simp only: two_digit_less[OF b d] two_digit_less[OF d b])
  also have "\<dots> = (a = c \<and> b = d)"
    by (auto simp: not_less)
  finally show ?thesis .
qed

lemma last_digit_order:
  "(m div 10 < n div 10 \<or> (m div 10 = n div 10 \<and>
      (m mod 10 < n mod 10 \<or> (m mod 10 = n mod 10 \<and> R)))) =
   (m < n \<or> (m = n \<and> R))" for m n :: nat
proof -
  have b: "m mod 10 < 10" and d: "n mod 10 < 10" by simp_all
  have lt: "(m < n) = (m div 10 < n div 10 \<or> (m div 10 = n div 10 \<and> m mod 10 < n mod 10))"
    using two_digit_less[OF b d, of "m div 10" "n div 10"] by simp
  have eq: "(m = n) = (m div 10 = n div 10 \<and> m mod 10 = n mod 10)"
    using two_digit_eq[OF b d, of "m div 10" "n div 10"] by simp
  show ?thesis unfolding lt eq by blast
qed

lemma digits_less:
  "m < 10 ^ k \<Longrightarrow> n < 10 ^ k \<Longrightarrow>
     (digits k m @ xs < digits k n @ ys) = (m < n \<or> (m = n \<and> xs < ys))"
proof (induction k arbitrary: m n xs ys)
  case 0
  then show ?case by simp
next
  case (Suc k)
  from Suc.prems have "m div 10 < 10 ^ k" "n div 10 < 10 ^ k"
    by (simp_all add: less_mult_imp_div_less mult.commute)
  from Suc.IH[OF this, of "digit_char m # xs" "digit_char n # ys"]
  have "(digits (Suc k) m @ xs < digits (Suc k) n @ ys) =
      (m div 10 < n div 10 \<or> (m div 10 = n div 10 \<and>
        (m mod 10 < n mod 10 \<or> (m mod 10 = n mod 10 \<and> xs < ys))))"
    by (simp add: digit_char_less digit_char_eq)
  then show ?case by (simp only: last_digit_order)
qed

lemma digits_2: "digits 2 n = [digit_char (n div 10), digit_char n]"
proof -
  have "digits (Suc (Suc 0)) n = [digit_char (n div 10), digit_char n]" by simp
  then show ?thesis by (simp only: numeral_2_eq_2)
qed

lemma digits_4:
  "digits 4 n = [digit_char (n div 1000), digit_char (n div 100), digit_char (n div 10), digit_char n]"
proof -
  have a: "n div 10 div 10 = n div 100" and b: "n div 100 div 10 = n div 1000"
    by (simp_all add: div_mult2_eq[symmetric])
  have "digits (Suc (Suc (Suc (Suc 0)))) n =
      [digit_char (n div 10 div 10 div 10), digit_char (n div 10 div 10), digit_char (n div 10),
       digit_char n]"
    by simp
  then have "digits (Suc (Suc (Suc (Suc 0)))) n =
      [digit_char (n div 1000), digit_char (n div 100), digit_char (n div 10), digit_char n]"
    by (simp only: a b)
  moreover have "(4::nat) = Suc (Suc (Suc (Suc 0)))" by simp
  ultimately show ?thesis by (simp only:)
qed

lemma isoformat_digits:
  "isoformat d = digits 4 (year d) @ CHR ''-'' # digits 2 (month d) @ CHR ''-'' # digits 2 (day d)"
  by (simp only: isoformat_def digits_2 digits_4 append.simps)

lemma isoformat_less:
  assumes "year a < 10000" "month a < 100" "day a < 100"
    and "year b < 10000" "month b < 100" "day b < 100"
  shows "(isoformat a < isoformat b) =
     (year a < year b \<or> (year a = year b \<and>
       (month a < month b \<or> (month a = month b \<and> day a < day b))))"
proof -
  have y: "year a < 10 ^ 4" "year b < 10 ^ 4" and m: "month a < 10 ^ 2" "month b < 10 ^ 2"
    and d: "day a < 10 ^ 2" "day b < 10 ^ 2"
    using assms by simp_all
  have last: "(digits 2 (day a) < digits 2 (day b)) = (day a < day b)"
    using digits_less[OF d, of "[]" "[]"] by simp
  show ?thesis
    unfolding isoformat_digits
    by (simp only: digits_less[OF y] digits_less[OF m] Cons_less_Cons last simp_thms
        less_irrefl)
qed

lemma month_range:
  "1 \<le> m \<Longrightarrow> m \<le> 12 \<Longrightarrow> m \<in> {1, 2, 3, 4, 5, 6, 7, 8, 9, 10, 11, 12::nat}"
  by simp arith

lemma days_before_month_Suc:
  assumes "1 \<le> m" "m \<le> 11"
  shows "days_before_month y (Suc m) = days_before_month y m + int (days_in_month y m)"
proof -
  from assms have "1 \<le> m" "m \<le> 12" by simp_all
  from month_range[OF this] assms(2) show ?thesis
    by (auto simp: days_before_month_def days_in_month_def)
qed

lemma days_before_month_last:
  "days_before_month y 12 + int (days_in_month y 12) = days_in_year y"
  by (simp add: days_before_month_def days_in_month_def days_in_year_def)

lemma days_before_month_nonneg: "1 \<le> m \<Longrightarrow> m \<le> 12 \<Longrightarrow> 0 \<le> days_before_month y m"
  by (drule (1) month_range) (auto simp: days_before_month_def)

lemma days_before_month_mono:
  assumes "1 \<le> m" "m < m'" "m' \<le> 12"
  shows "days_before_month y m + int (days_in_month y m) \<le> days_before_month y m'"
proof -
  from assms(2) have "Suc m \<le> m'" by simp
  then show ?thesis using assms(3)
  proof (induction rule: dec_induct)
    case base
    with assms(1) show ?case by (simp add: days_before_month_Suc)
  next
    case (step n)
    then have "days_before_month y (Suc n) = days_before_month y n + int (days_in_month y n)"
      using assms(1) by (intro days_before_month_Suc) simp_all
    with step show ?case by simp
  qed
qed

lemma day_of_year_bound:
  assumes "1 \<le> m" "m \<le> 12"
  shows "days_before_month y m + int (days_in_month y m) \<le> days_in_year y"
proof (cases "m = 12")
  case True
  then show ?thesis by (simp add: days_before_month_last)
next
  case False
  with assms have "m < 12" by simp
  from days_before_month_mono[OF assms(1) this, of y] days_before_month_last[of y]
  show ?thesis by simp
qed

lemma int_div_step:
  assumes "0 < k"
  shows "(q::int) div k = (q - 1) div k + (if q mod k = 0 then 1 else 0)"
proof (cases "q mod k = 0")
  case True
  have "q - 1 = k * (q div k - 1) + (k - 1)"
    using True by (simp add: algebra_simps mod_eq_0_iff_dvd)
  then have "(q - 1) div k = q div k - 1"
    by (rule int_div_pos_eq) (use assms in simp_all)
  with True show ?thesis by simp
next
  case False
  have r: "0 \<le> q mod k" "q mod k < k" using assms by simp_all
  have "q - 1 = k * (q div k) + (q mod k - 1)"
    by simp
  then have "(q - 1) div k = q div k"
    by (rule int_div_pos_eq) (use False r in simp_all)
  with False show ?thesis by simp
qed

lemma int_mod_nat: "(int y mod numeral k = 0) = (y mod numeral k = 0)"
proof -
  have "int y mod numeral k = int (y mod numeral k)" by (simp add: zmod_int)
  then show ?thesis by simp
qed

lemma days_before_year_Suc:
  "days_before_year (Suc y) = days_before_year y + days_in_year y"
proof -
  have d1: "y mod 400 = 0 \<Longrightarrow> y mod 100 = 0"
    by (simp add: mod_eq_0_iff_dvd) (rule dvd_trans[of 100 400], simp_all)
  have d2: "y mod 100 = 0 \<Longrightarrow> y mod 4 = 0"
    by (simp add: mod_eq_0_iff_dvd) (rule dvd_trans[of 4 100], simp_all)
  have s4: "int y div 4 = (int y - 1) div 4 + (if y mod 4 = 0 then 1 else 0)"
    using int_div_step[of 4 "int y"] by (simp only: int_mod_nat)
  have s100: "int y div 100 = (int y - 1) div 100 + (if y mod 100 = 0 then 1 else 0)"
    using int_div_step[of 100 "int y"] by (simp only: int_mod_nat)
  have s400: "int y div 400 = (int y - 1) div 400 + (if y mod 400 = 0 then 1 else 0)"
    using int_div_step[of 400 "int y"] by (simp only: int_mod_nat)
  have "days_before_year (Suc y) =
      int y * 365 + int y div 4 - int y div 100 + int y div 400"
    by (simp add: days_before_year_def Let_def)
  also have "\<dots> = days_before_year y + days_in_year y"
    unfolding s4 s100 s400
    using d1 d2
    by (auto simp: days_before_year_def Let_def days_in_year_def is_leap_def algebra_simps)
  finally show ?thesis .
qed

lemma days_in_year_pos: "0 < days_in_year y"
  by (simp add: days_in_year_def)

lemma days_before_year_mono: "y \<le> y' \<Longrightarrow> days_before_year y \<le> days_before_year y'"
proof (induction rule: dec_induct)
  case base
  show ?case by simp
next
  case (step n)
  with days_in_year_pos[of n] show ?case by (simp add: days_before_year_Suc)
qed

lemma days_before_next_year:
  assumes "y < y'"
  shows "days_before_year y + days_in_year y \<le> days_before_year y'"
proof -
  from assms have "Suc y \<le> y'" by simp
  from days_before_year_mono[OF this] show ?thesis by (simp add: days_before_year_Suc)
qed

lemma date_before_toordinal:
  assumes a: "valid_date a" and b: "valid_date b" and l: "date_before a b"
  shows "toordinal a < toordinal b"
proof -
  from a have ma: "1 \<le> month a" "month a \<le> 12"
    and da: "1 \<le> day a" "day a \<le> days_in_month (year a) (month a)"
    by (simp_all add: valid_date_def)
  from b have mb: "1 \<le> month b" "month b \<le> 12"
    and db: "1 \<le> day b" "day b \<le> days_in_month (year b) (month b)"
    by (simp_all add: valid_date_def)
  from l consider
      (y) "year a < year b"
    | (m) "year a = year b" "month a < month b"
    | (d) "year a = year b" "month a = month b" "day a < day b"
    by (auto simp: date_before_def)
  then show ?thesis
  proof cases
    case y
    have "toordinal a \<le> days_before_year (year a) + days_in_year (year a)"
      using day_of_year_bound[OF ma, of "year a"] da(2) by (simp add: toordinal_def)
    also have "\<dots> \<le> days_before_year (year b)"
      by (rule days_before_next_year[OF y])
    also have "\<dots> < toordinal b"
      using days_before_month_nonneg[OF mb, of "year b"] db(1) by (simp add: toordinal_def)
    finally show ?thesis .
  next
    case m
    have "days_before_month (year a) (month a) + int (day a) \<le>
        days_before_month (year a) (month a) + int (days_in_month (year a) (month a))"
      using da(2) by simp
    also have "\<dots> \<le> days_before_month (year a) (month b)"
      by (rule days_before_month_mono[OF ma(1) m(2) mb(2)])
    also have "\<dots> < days_before_month (year a) (month b) + int (day b)"
      using db(1) by simp
    finally show ?thesis using m(1) by (simp add: toordinal_def)
  next
    case d
    then show ?thesis by (simp add: toordinal_def)
  qed
qed

lemma toordinal_less_iff:
  assumes a: "valid_date a" and b: "valid_date b"
  shows "(toordinal a < toordinal b) = date_before a b"
proof
  assume "date_before a b"
  then show "toordinal a < toordinal b" by (rule date_before_toordinal[OF a b])
next
  assume l: "toordinal a < toordinal b"
  show "date_before a b"
  proof (rule ccontr)
    assume n: "\<not> date_before a b"
    then have "date_before b a \<or> (year a = year b \<and> month a = month b \<and> day a = day b)"
      by (auto simp: date_before_def)
    then show False
    proof
      assume "date_before b a"
      from date_before_toordinal[OF b a this] l show False by simp
    next
      assume "year a = year b \<and> month a = month b \<and> day a = day b"
      then have "toordinal a = toordinal b" by (simp add: toordinal_def)
      with l show False by simp
    qed
  qed
qed

lemma isoformat_less_iff:
  assumes a: "valid_date a" and b: "valid_date b"
  shows "(isoformat a < isoformat b) = (toordinal a < toordinal b)"
proof -
  have dim: "days_in_month y m < 100" for y m
  proof -
    have "(m - 1) mod 12 < 12" by simp
    then have "[31, 28, 31, 30, 31, 30, 31, 31, 30, 31, 30, 31] ! ((m - 1) mod 12) \<le> (31::nat)"
      by (intro list_ball_nth[where P="\<lambda>x. x \<le> 31"]) simp_all
    then show ?thesis by (simp add: days_in_month_def)
  qed
  from a dim[of "year a" "month a"]
  have ra: "year a < 10000" "month a < 100" "day a < 100"
    by (simp_all add: valid_date_def)
  from b dim[of "year b" "month b"]
  have rb: "year b < 10000" "month b < 100" "day b < 100"
    by (simp_all add: valid_date_def)
  show ?thesis
    unfolding toordinal_less_iff[OF a b] date_before_def
    by (rule isoformat_less[OF ra rb])
qed

lemma isoformat_inj:
  assumes a: "valid_date a" and b: "valid_date b" and e: "isoformat a = isoformat b"
  shows "a = b"
proof -
  from e have "\<not> isoformat a < isoformat b" "\<not> isoformat b < isoformat a" by simp_all
  then have "\<not> date_before a b" "\<not> date_before b a"
    using isoformat_less_iff[OF a b] isoformat_less_iff[OF b a]
      toordinal_less_iff[OF a b] toordinal_less_iff[OF b a] by simp_all
  then have "year a = year b \<and> month a = month b \<and> day a = day b"
    by (auto simp: date_before_def)
  then show ?thesis by simp
qed

section \<open>The readiness gate\<close>

lemma hd_sort_Min: "xs \<noteq> [] \<Longrightarrow> hd (sort xs) = Min (set xs)"
proof -
  assume ne: "xs \<noteq> []"
  have s: "sorted (sort xs)" and e: "set (sort xs) = set xs" by simp_all
  from ne have ne': "sort xs \<noteq> []" by (metis e set_empty)
  then obtain y ys where ys: "sort xs = y # ys" by (cases "sort xs") auto
  with s have "\<forall>z \<in> set (sort xs). y \<le> z" by auto
  moreover have "y \<in> set (sort xs)" using ys by simp
  ultimately have "Min (set (sort xs)) = y" by (intro Min_eqI) auto
  with e ys show ?thesis by simp
qed

lemma set_unreported_dates: "set (unreported_dates data t) = blocking_dates data t"
  by (auto simp: unreported_dates_def blocking_dates_def)

lemma unreported_dates_cases:
  "(blocking_dates data t = {} \<and> unreported_dates data t = []) \<or>
   (blocking_dates data t \<noteq> {} \<and>
     (\<exists>rest. unreported_dates data t = Min (blocking_dates data t) # rest))"
proof (cases "unreported_dates data t")
  case Nil
  then show ?thesis using set_unreported_dates[of data t] by auto
next
  case (Cons a as)
  let ?xs = "filter (\<lambda>date. date \<notin> set (dict_keys (reports data)) \<and> date < t)
               (dict_keys (plan data))"
  have u: "unreported_dates data t = sort ?xs" by (simp add: unreported_dates_def)
  with Cons have ne: "?xs \<noteq> []" by auto
  have "hd (unreported_dates data t) = Min (set ?xs)" using hd_sort_Min[OF ne] u by simp
  also have "set ?xs = blocking_dates data t" by (auto simp: blocking_dates_def)
  finally have "a = Min (blocking_dates data t)" using Cons by simp
  moreover have "blocking_dates data t \<noteq> {}"
    using set_unreported_dates[of data t] Cons by auto
  ultimately show ?thesis using Cons by auto
qed

lemma isoformat_jan_3: "isoformat (jan 3) = ''2025-01-03''"
  by (simp add: isoformat_def jan_def digit_char_def)

lemma blocking_dates_scenario:
  assumes "plan stored = [(''2025-01-01'', p)]"
    and "''2025-01-01'' \<notin> set (dict_keys (reports stored))"
  shows "blocking_dates stored ''2025-01-03'' = {''2025-01-01''}"
  using assms by (auto simp: blocking_dates_def dict_keys_def)

lemma ready_on_default_document:
  "fst (check_readiness_for_planning (jan 1) (get_default_data (jan 1))) =
     Inr (READY (''PROCEED_NORMALLY'', ''Analytics indicate user is ready for a productive day.'')
        [] ''Wednesday'' ''N/A'' 0)"
  by code_simp

text \<open>
  C1. The gate answers \<open>BLOCKED\<close> exactly when some key of \<open>plan\<close> is strictly before
  today and has no report. It then names the earliest such date with the task list of
  that plan, whatever else holds of the document (a plan or a report for today
  included), and leaves the stored document as it is. With
  \<open>plan = {"2025-01-01": p}\<close>, no report for that date and today 2025-01-03, the answer
  is \<open>BLOCKED\<close> with \<open>unreported_date = "2025-01-01"\<close>. The code compares the keys
  with today's ISO string; for a key that is the ISO form of a date this is the
  comparison of the dates.
\<close>

theorem check_readiness_blocked:
  "(blocking_dates stored (isoformat today) \<noteq> {} \<longrightarrow>
      (\<exists>p. map_of (plan stored) (Min (blocking_dates stored (isoformat today))) = Some p \<and>
        check_readiness_for_planning today stored =
          (Inr (BLOCKED
             (''Unreported plan for '' @ Min (blocking_dates stored (isoformat today))
                @ ''. Accountability check required.'')
             (Min (blocking_dates stored (isoformat today))) (tasks p)), stored))) \<and>
   (blocking_dates stored (isoformat today) = {} \<longrightarrow>
      (\<forall>r. fst (check_readiness_for_planning today stored) = Inr r \<longrightarrow>
         status r \<noteq> ''BLOCKED'')) \<and>
   (today = jan 3 \<and> plan stored = [(''2025-01-01'', p1)] \<and>
    ''2025-01-01'' \<notin> set (dict_keys (reports stored)) \<longrightarrow>
      check_readiness_for_planning today stored =
        (Inr (BLOCKED ''Unreported plan for 2025-01-01. Accountability check required.''
           ''2025-01-01'' (tasks p1)), stored)) \<and>
   (valid_date today \<and> valid_date d \<longrightarrow>
      (isoformat d \<in> blocking_dates stored (isoformat today)) =
        (isoformat d \<in> set (dict_keys (plan stored)) \<and>
         toordinal d < toordinal today \<and>
         isoformat d \<notin> set (dict_keys (reports stored))))"
proof -
  have blocked: "\<exists>p. map_of (plan stored) (Min (blocking_dates stored t)) = Some p \<and>
        (unreported_dates stored t \<noteq> [] \<and> hd (unreported_dates stored t) = Min (blocking_dates stored t))"
    if ne: "blocking_dates stored t \<noteq> {}" for t
  proof -
    let ?m = "Min (blocking_dates stored t)"
    from ne unreported_dates_cases[of stored t]
    obtain rest where u: "unreported_dates stored t = ?m # rest" by auto
    have "finite (blocking_dates stored t)" by (simp add: blocking_dates_def)
    then have "?m \<in> blocking_dates stored t" using ne by (rule Min_in)
    then have "?m \<in> fst ` set (plan stored)" by (simp add: blocking_dates_def dict_keys_def)
    then obtain p where p: "map_of (plan stored) ?m = Some p"
      by (metis domD dom_map_of_conv_image_fst)
    with u show ?thesis by simp
  qed
  have first: "\<exists>p. map_of (plan stored) (Min (blocking_dates stored (isoformat today))) = Some p \<and>
        check_readiness_for_planning today stored =
          (Inr (BLOCKED
             (''Unreported plan for '' @ Min (blocking_dates stored (isoformat today))
                @ ''. Accountability check required.'')
             (Min (blocking_dates stored (isoformat today))) (tasks p)), stored)"
    if ne: "blocking_dates stored (isoformat today) \<noteq> {}"
  proof -
    from blocked[OF ne] obtain p where
      p: "map_of (plan stored) (Min (blocking_dates stored (isoformat today))) = Some p"
      and u: "unreported_dates stored (isoformat today) \<noteq> []"
      and h: "hd (unreported_dates stored (isoformat today)) =
                Min (blocking_dates stored (isoformat today))"
      by blast
    from u h obtain rest where
      "unreported_dates stored (isoformat today) =
         Min (blocking_dates stored (isoformat today)) # rest"
      by (cases "unreported_dates stored (isoformat today)") auto
    with p show ?thesis by (simp add: check_readiness_for_planning_def Let_def)
  qed
  have second: "\<forall>r. fst (check_readiness_for_planning today stored) = Inr r \<longrightarrow>
      status r \<noteq> ''BLOCKED''"
    if e: "blocking_dates stored (isoformat today) = {}"
  proof -
    from e unreported_dates_cases[of stored "isoformat today"]
    have u: "unreported_dates stored (isoformat today) = []" by auto
    show ?thesis
      using u by (auto simp: check_readiness_for_planning_def Let_def status_def
          split: option.splits prod.splits sum.splits if_splits)
  qed
  have third: "check_readiness_for_planning today stored =
        (Inr (BLOCKED ''Unreported plan for 2025-01-01. Accountability check required.''
           ''2025-01-01'' (tasks p1)), stored)"
    if t: "today = jan 3" and pl: "plan stored = [(''2025-01-01'', p1)]"
      and nr: "''2025-01-01'' \<notin> set (dict_keys (reports stored))"
  proof -
    have b: "blocking_dates stored (isoformat today) = {''2025-01-01''}"
      using blocking_dates_scenario[OF pl nr] t isoformat_jan_3 by simp
    then have ne: "blocking_dates stored (isoformat today) \<noteq> {}" by simp
    from first[OF ne] b pl show ?thesis by simp
  qed
  have fourth: "(isoformat d \<in> blocking_dates stored (isoformat today)) =
        (isoformat d \<in> set (dict_keys (plan stored)) \<and>
         toordinal d < toordinal today \<and>
         isoformat d \<notin> set (dict_keys (reports stored)))"
    if v: "valid_date today \<and> valid_date d"
  proof -
    from v have "(isoformat d < isoformat today) = (toordinal d < toordinal today)"
      by (intro isoformat_less_iff) simp_all
    then show ?thesis by (auto simp: blocking_dates_def)
  qed
  from first second third fourth show ?thesis by blast
qed

theorem check_readiness_blocked_witness:
  "blocking_dates blocked_document (isoformat (jan 3)) \<noteq> {} \<and>
   check_readiness_for_planning (jan 3) blocked_document =
     (Inr (BLOCKED ''Unreported plan for 2025-01-01. Accountability check required.''
        ''2025-01-01'' (tasks example_plan)), blocked_document) \<and>
   blocking_dates (get_default_data (jan 1)) (isoformat (jan 1)) = {} \<and>
   fst (check_readiness_for_planning (jan 1) (get_default_data (jan 1))) =
     Inr (READY (''PROCEED_NORMALLY'', ''Analytics indicate user is ready for a productive day.'')
        [] ''Wednesday'' ''N/A'' 0) \<and>
   status (READY (''PROCEED_NORMALLY'', ''Analytics indicate user is ready for a productive day.'')
        [] ''Wednesday'' ''N/A'' 0) \<noteq> ''BLOCKED''"
proof -
  have pl: "plan blocked_document = [(''2025-01-01'', example_plan)]"
    and nr: "''2025-01-01'' \<notin> set (dict_keys (reports blocked_document))"
    by (simp_all add: blocked_document_def get_default_data_def dict_keys_def)
  have b: "blocking_dates blocked_document (isoformat (jan 3)) = {''2025-01-01''}"
    unfolding isoformat_jan_3 using pl nr by (rule blocking_dates_scenario)
  have e: "blocking_dates (get_default_data (jan 1)) (isoformat (jan 1)) = {}"
    by (simp add: blocking_dates_def get_default_data_def dict_keys_def)
  show ?thesis
    using check_readiness_blocked[where stored=blocked_document and today="jan 3"
        and ?p1.0=example_plan and d="jan 1"]
      check_readiness_blocked[where stored="get_default_data (jan 1)" and today="jan 1"
        and ?p1.0=example_plan and d="jan 1"]
      b pl nr e ready_on_default_document
    by simp
qed

section \<open>Recalculation: the absence counter\<close>

lemma snd_update_absence_counter:
  "snd (update_absence_counter today stored) =
     (case last_task_date (analytics stored) of
        None \<Rightarrow> stored
      | Some s \<Rightarrow>
          (case strptime s of
             Inl _ \<Rightarrow> stored
           | Inr d \<Rightarrow> stored\<lparr>analytics := (analytics stored)
                 \<lparr>absence_counter := max 0 (days_between today d - 1)\<rparr>\<rparr>))"
  by (auto simp: update_absence_counter_def strptime_def split: option.splits sum.splits)

lemma snd_update_full_analytics:
  "snd (update_full_analytics data today stored) = snd (update_absence_counter today stored)"
  by (auto simp: update_full_analytics_def Let_def split: prod.splits sum.splits)

lemma restore_absence_counter:
  "(snd (update_absence_counter today stored))\<lparr>analytics :=
      (analytics (snd (update_absence_counter today stored)))
        \<lparr>absence_counter := absence_counter (analytics stored)\<rparr>\<rparr> = stored"
  by (cases stored) (auto simp: snd_update_absence_counter split: option.splits sum.splits)

lemma recompute_after_nine_days:
  "update_full_analytics (get_default_data (jan 1)) (jan 10) (get_default_data (jan 1)) =
     (Inr ((get_default_data (jan 1))\<lparr>analytics := (analytics (get_default_data (jan 1)))
             \<lparr>dedication_percentage := dec 5 10\<rparr>\<rparr>),
      (get_default_data (jan 1))\<lparr>analytics := (analytics (get_default_data (jan 1)))
             \<lparr>absence_counter := 8\<rparr>\<rparr>)"
  by code_simp

lemma dedication_formula_eight_absences:
  "dedication_formula (FP 0 0) 8 (float_of_int 1) = dec 2 10 \<and> dec 5 10 \<noteq> dec 2 10"
  by code_simp

text \<open>
  C2 (the code departs from the claim). The document of a fresh start on 2025-01-01
  (\<open>last_task_date = "2025-01-01"\<close>, \<open>absence_counter = 0\<close>, no reports) is recomputed on
  2025-01-10. The refreshed counter, \<open>max(0, 9 - 1) = 8\<close>, is written to the stored
  document only; the document being recomputed keeps the counter 0 it was loaded
  with, and its dedication is 0.5, computed from that 0. The formula on the refreshed
  counter 8 gives 0.2.
\<close>

theorem recompute_dedication_reads_stale_absence_counter:
  "update_full_analytics (get_default_data (jan 1)) (jan 10) (get_default_data (jan 1)) =
     (Inr ((get_default_data (jan 1))\<lparr>analytics := (analytics (get_default_data (jan 1)))
             \<lparr>dedication_percentage := dec 5 10\<rparr>\<rparr>),
      (get_default_data (jan 1))\<lparr>analytics := (analytics (get_default_data (jan 1)))
             \<lparr>absence_counter := 8\<rparr>\<rparr>) \<and>
   absence_counter (analytics (get_default_data (jan 1))) = 0 \<and>
   dedication_formula (FP 0 0) 8 (float_of_int 1) = dec 2 10 \<and>
   dec 5 10 \<noteq> dec 2 10"
  using recompute_after_nine_days dedication_formula_eight_absences
  by (simp add: get_default_data_def)

section \<open>Recalculation: the completion trends\<close>

text \<open>Where no report is dated after today, the code's window is the specification's.\<close>

lemma get_recent_reports_in_window:
  assumes "\<forall>(k, r) \<in> set (reports data).
             \<forall>d. strptime k = Inr d \<longrightarrow> toordinal d \<le> toordinal today"
  shows "get_recent_reports data window today = reports_in_window data window today"
proof -
  have "filter (\<lambda>(date_str, r). case strptime date_str of
          Inr report_date \<Rightarrow> days_between today report_date < window
        | Inl _ \<Rightarrow> False) (reports data) =
        filter (\<lambda>(date_str, r). case strptime date_str of
          Inr d \<Rightarrow> 0 \<le> days_between today d \<and> days_between today d < window
        | Inl _ \<Rightarrow> False) (reports data)"
    using assms by (intro filter_cong refl) (auto simp: days_between_def split: sum.splits)
  then show ?thesis by (simp add: get_recent_reports_def reports_in_window_def)
qed

lemma future_report_selected:
  "get_recent_reports future_report_document 7 (jan 3) = [example_report (float_of_int 1)] \<and>
   reports_in_window future_report_document 7 (jan 3) = []"
  by code_simp

lemma future_report_trend:
  "fst (update_full_analytics future_report_document (jan 3) future_report_document) =
     Inr (future_report_document\<lparr>analytics := (analytics future_report_document)
       \<lparr>last_7_days := float_of_int 1, last_30_days := float_of_int 1,
        dedication_percentage := float_of_int 1\<rparr>\<rparr>)"
  by code_simp

lemma one_not_zero: "float_of_int 1 \<noteq> FP 0 0 \<and> mean_or_zero [] = FP 0 0 \<and> round2 (FP 0 0) = FP 0 0"
  by code_simp

text \<open>
  C3 (the code departs from the claim). On 2025-01-03 the only report is dated
  2025-01-05. \<open>today - d\<close> is \<open>-2\<close>, which is below 7, and the code has no lower bound:
  the report is selected and both trends are 1.0. The window \<open>0 \<le> today - d < 7\<close> of the
  claim is empty, so the claimed trend is 0.0.
\<close>

theorem trends_include_reports_after_today:
  "get_recent_reports future_report_document 7 (jan 3) = [example_report (float_of_int 1)] \<and>
   reports_in_window future_report_document 7 (jan 3) = [] \<and>
   round2 (mean_or_zero (map completion_rate (reports_in_window future_report_document 7 (jan 3))))
     = FP 0 0 \<and>
   fst (update_full_analytics future_report_document (jan 3) future_report_document) =
     Inr (future_report_document\<lparr>analytics := (analytics future_report_document)
       \<lparr>last_7_days := float_of_int 1, last_30_days := float_of_int 1,
        dedication_percentage := float_of_int 1\<rparr>\<rparr>) \<and>
   float_of_int 1 \<noteq> FP 0 0"
  using future_report_selected future_report_trend one_not_zero by simp

section \<open>The readiness gate and the stored document\<close>

lemma snd_check_readiness:
  "snd (check_readiness_for_planning today stored) = stored \<or>
   snd (check_readiness_for_planning today stored) = snd (update_absence_counter today stored)"
  using snd_update_full_analytics[where data=stored and today=today and stored=stored]
  by (auto simp: check_readiness_for_planning_def Let_def
      split: list.splits option.splits prod.splits sum.splits)

lemma check_readiness_after_nine_days:
  "check_readiness_for_planning (jan 10) (get_default_data (jan 1)) =
     (Inr (READY (''PROCEED_NORMALLY'', ''Analytics indicate user is ready for a productive day.'')
        [] ''Friday'' ''N/A'' 0),
      (get_default_data (jan 1))\<lparr>analytics := (analytics (get_default_data (jan 1)))
        \<lparr>absence_counter := 8\<rparr>\<rparr>)"
  by code_simp

lemma check_readiness_blocked_document:
  "fst (check_readiness_for_planning (jan 3) blocked_document) =
     Inr (BLOCKED ''Unreported plan for 2025-01-01. Accountability check required.''
        ''2025-01-01'' (tasks example_plan))"
  by code_simp

text \<open>
  C4, as claimed, fails: on 2025-01-10 the gate answers \<open>READY\<close> on the document of a
  fresh start on 2025-01-01 and leaves \<open>absence_counter = 8\<close> in the stored document,
  which held 0.
\<close>

theorem check_readiness_writes_absence_counter:
  "fst (check_readiness_for_planning (jan 10) (get_default_data (jan 1))) =
     Inr (READY (''PROCEED_NORMALLY'', ''Analytics indicate user is ready for a productive day.'')
        [] ''Friday'' ''N/A'' 0) \<and>
   absence_counter (analytics (snd (check_readiness_for_planning (jan 10)
      (get_default_data (jan 1))))) = 8 \<and>
   absence_counter (analytics (get_default_data (jan 1))) = 0 \<and>
   snd (check_readiness_for_planning (jan 10) (get_default_data (jan 1))) \<noteq>
     get_default_data (jan 1)"
  using check_readiness_after_nine_days by (simp add: get_default_data_def)

text \<open>
  C4, amended. The gate leaves the stored document unchanged when it answers
  \<open>BLOCKED\<close>, \<open>PLAN_EXIST\<close> or \<open>ALREADY_REPORTED\<close>. When it answers \<open>READY\<close>, the stored
  document changes in \<open>absence_counter\<close> alone, which becomes
  \<open>max(0, (today - last_task_date) - 1)\<close> where \<open>last_task_date\<close> is set; the recomputed
  trends, dedication and burnout risk are not stored. In every outcome, an exception
  included, nothing but \<open>absence_counter\<close> differs from the document stored before.
\<close>

theorem check_readiness_frame:
  "(\<forall>r. fst (check_readiness_for_planning today stored) = Inr r \<and> status r \<noteq> ''READY'' \<longrightarrow>
      snd (check_readiness_for_planning today stored) = stored) \<and>
   (\<forall>r. fst (check_readiness_for_planning today stored) = Inr r \<and> status r = ''READY'' \<longrightarrow>
      snd (check_readiness_for_planning today stored) =
        (case last_task_date (analytics stored) of
           None \<Rightarrow> stored
         | Some s \<Rightarrow>
            (case strptime s of
               Inl _ \<Rightarrow> stored
             | Inr d \<Rightarrow> stored\<lparr>analytics := (analytics stored)
                 \<lparr>absence_counter := max 0 (days_between today d - 1)\<rparr>\<rparr>))) \<and>
   (snd (check_readiness_for_planning today stored))\<lparr>analytics :=
      (analytics (snd (check_readiness_for_planning today stored)))
        \<lparr>absence_counter := absence_counter (analytics stored)\<rparr>\<rparr> = stored"
proof (intro conjI allI impI)
  fix r
  assume "fst (check_readiness_for_planning today stored) = Inr r \<and> status r \<noteq> ''READY''"
  then show "snd (check_readiness_for_planning today stored) = stored"
    by (auto simp: check_readiness_for_planning_def Let_def status_def
      split: list.splits option.splits prod.splits sum.splits if_splits)
next
  fix r
  assume "fst (check_readiness_for_planning today stored) = Inr r \<and> status r = ''READY''"
  then have "snd (check_readiness_for_planning today stored) =
      snd (update_absence_counter today stored)"
    using snd_update_full_analytics[where data=stored and today=today and stored=stored]
    by (auto simp: check_readiness_for_planning_def Let_def status_def
      split: list.splits option.splits prod.splits sum.splits if_splits)
  then show "snd (check_readiness_for_planning today stored) =
        (case last_task_date (analytics stored) of
           None \<Rightarrow> stored
         | Some s \<Rightarrow>
            (case strptime s of
               Inl _ \<Rightarrow> stored
             | Inr d \<Rightarrow> stored\<lparr>analytics := (analytics stored)
                 \<lparr>absence_counter := max 0 (days_between today d - 1)\<rparr>\<rparr>))"
    by (simp add: snd_update_absence_counter)
next
  show "(snd (check_readiness_for_planning today stored))\<lparr>analytics :=
      (analytics (snd (check_readiness_for_planning today stored)))
        \<lparr>absence_counter := absence_counter (analytics stored)\<rparr>\<rparr> = stored"
    using snd_check_readiness[where today=today and stored=stored]
      restore_absence_counter[where today=today and stored=stored]
    by auto
qed

theorem check_readiness_frame_witness:
  "fst (check_readiness_for_planning (jan 3) blocked_document) =
     Inr (BLOCKED ''Unreported plan for 2025-01-01. Accountability check required.''
        ''2025-01-01'' (tasks example_plan)) \<and>
   snd (check_readiness_for_planning (jan 3) blocked_document) = blocked_document \<and>
   fst (check_readiness_for_planning (jan 10) (get_default_data (jan 1))) =
     Inr (READY (''PROCEED_NORMALLY'', ''Analytics indicate user is ready for a productive day.'')
        [] ''Friday'' ''N/A'' 0) \<and>
   snd (check_readiness_for_planning (jan 10) (get_default_data (jan 1))) =
     (get_default_data (jan 1))\<lparr>analytics := (analytics (get_default_data (jan 1)))
        \<lparr>absence_counter := 8\<rparr>\<rparr>"
proof -
  have s1: "status (BLOCKED ''Unreported plan for 2025-01-01. Accountability check required.''
        ''2025-01-01'' (tasks example_plan)) \<noteq> ''READY''"
    by (simp add: status_def)
  have s2: "status (READY (''PROCEED_NORMALLY'',
        ''Analytics indicate user is ready for a productive day.'') [] ''Friday'' ''N/A'' 0) = ''READY''"
    by (simp add: status_def)
  have d: "strptime ''2025-01-01'' = Inr (jan 1)"
    by code_simp
  have n: "days_between (jan 10) (jan 1) = 9"
    by code_simp
  have l: "last_task_date (analytics (get_default_data (jan 1))) = Some ''2025-01-01''"
    by code_simp
  have f2: "fst (check_readiness_for_planning (jan 10) (get_default_data (jan 1))) =
     Inr (READY (''PROCEED_NORMALLY'', ''Analytics indicate user is ready for a productive day.'')
        [] ''Friday'' ''N/A'' 0)"
    using check_readiness_after_nine_days by simp
  note fr1 = check_readiness_frame[where today="jan 3" and stored=blocked_document]
  note fr2 = check_readiness_frame[where today="jan 10" and stored="get_default_data (jan 1)"]
  have a: "snd (check_readiness_for_planning (jan 3) blocked_document) = blocked_document"
    by (rule fr1[THEN conjunct1, rule_format, OF conjI[OF check_readiness_blocked_document s1]])
  have b: "snd (check_readiness_for_planning (jan 10) (get_default_data (jan 1))) =
     (get_default_data (jan 1))\<lparr>analytics := (analytics (get_default_data (jan 1)))
        \<lparr>absence_counter := 8\<rparr>\<rparr>"
    using fr2[THEN conjunct2, THEN conjunct1, rule_format, OF conjI[OF f2 s2]]
    by (simp only: l option.case d sum.case n) simp
  from a b check_readiness_blocked_document f2
  show ?thesis by simp
qed

section \<open>Recalculation: what it returns\<close>

lemma make_date_error: "make_date y m d = Inl e \<Longrightarrow> e = ValueError"
  by (simp add: make_date_def split: if_splits)

lemma strptime_error: "strptime s = Inl e \<Longrightarrow> e = ValueError"
  unfolding strptime_def
  by (auto split: list.splits option.splits prod.splits if_splits dest: make_date_error)

lemma fst_update_absence_counter:
  "fst (update_absence_counter today stored) =
     (if last_task_date_parses stored then Inr () else Inl ValueError)"
  by (auto simp: update_absence_counter_def last_task_date_parses_def
      split: option.splits sum.splits dest: strptime_error)

lemma update_full_analytics_eq:
  "update_full_analytics data today stored =
     (case fst (update_absence_counter today stored) of
        Inl e \<Rightarrow> (Inl e, snd (update_absence_counter today stored))
      | Inr _ \<Rightarrow> (Inr (recalculated data today), snd (update_absence_counter today stored)))"
  by (simp add: update_full_analytics_def recalculated_def with_trends_def with_dedication_def
      with_burnout_risk_def Let_def split: prod.splits sum.splits)

lemma update_full_analytics_InrD:
  assumes "update_full_analytics data today stored = (Inr data', stored')"
  shows "data' = recalculated data today"
    and "stored' = snd (update_absence_counter today stored)"
    and "fst (update_absence_counter today stored) = Inr ()"
  using assms by (auto simp: update_full_analytics_eq split: sum.splits)

lemma update_full_analytics_parses:
  "last_task_date_parses stored \<Longrightarrow>
     update_full_analytics data today stored =
       (Inr (recalculated data today), snd (update_absence_counter today stored))"
  by (simp add: update_full_analytics_eq fst_update_absence_counter)

lemma update_full_analytics_InlD:
  assumes "update_full_analytics data today stored = (Inl e, stored')"
  shows "e = ValueError" and "stored' = stored" and "\<not> last_task_date_parses stored"
  using assms
  by (auto simp: update_full_analytics_eq fst_update_absence_counter snd_update_absence_counter
      last_task_date_parses_def split: sum.splits if_splits option.splits)

lemma get_recent_reports_cong:
  "reports d1 = reports d2 \<Longrightarrow> get_recent_reports d1 n t = get_recent_reports d2 n t"
  by (simp add: get_recent_reports_def)

lemma calculate_dedication_percentage_cong:
  assumes "reports d1 = reports d2"
    and "absence_counter (analytics d1) = absence_counter (analytics d2)"
    and "consecutive_high_intensity_days (analytics d1) =
         consecutive_high_intensity_days (analytics d2)"
  shows "calculate_dedication_percentage d1 t = calculate_dedication_percentage d2 t"
  by (simp only: calculate_dedication_percentage_def Let_def assms(2,3)
      get_recent_reports_cong[OF assms(1)])

lemma calculate_burnout_risk_cong:
  assumes "consecutive_high_intensity_days (analytics d1) =
           consecutive_high_intensity_days (analytics d2)"
    and "last_7_days (analytics d1) = last_7_days (analytics d2)"
    and "dedication_percentage (analytics d1) = dedication_percentage (analytics d2)"
    and "semester_phase (analytics d1) = semester_phase (analytics d2)"
    and "absence_counter (analytics d1) = absence_counter (analytics d2)"
  shows "calculate_burnout_risk d1 = calculate_burnout_risk d2"
  by (simp only: calculate_burnout_risk_def Let_def assms)

lemma with_burnout_risk_fixed:
  "with_burnout_risk (with_burnout_risk d) = with_burnout_risk d"
proof -
  have "calculate_burnout_risk (with_burnout_risk d) = calculate_burnout_risk d"
    by (rule calculate_burnout_risk_cong) (simp_all add: with_burnout_risk_def)
  then show ?thesis by (simp add: with_burnout_risk_def)
qed

lemma burnout_risk_recalculated:
  "burnout_risk (analytics (recalculated data today)) =
     calculate_burnout_risk (recalculated data today)"
proof -
  let ?d = "with_dedication (with_trends data today) today"
  have "calculate_burnout_risk (with_burnout_risk ?d) = calculate_burnout_risk ?d"
    by (rule calculate_burnout_risk_cong) (simp_all add: with_burnout_risk_def)
  then show ?thesis by (simp add: recalculated_def with_burnout_risk_def)
qed

lemma with_trends_recalculated:
  "with_trends (recalculated data today) today = recalculated data today"
proof -
  have r: "reports (recalculated data today) = reports data"
    by (simp add: recalculated_def with_trends_def with_dedication_def with_burnout_risk_def)
  show ?thesis
    unfolding with_trends_def get_recent_reports_cong[OF r]
    by (simp add: recalculated_def with_trends_def with_dedication_def with_burnout_risk_def)
qed

lemma with_dedication_recalculated:
  "with_dedication (recalculated data today) today = recalculated data today"
proof -
  have "calculate_dedication_percentage (recalculated data today) today =
        calculate_dedication_percentage (with_trends data today) today"
    by (rule calculate_dedication_percentage_cong)
      (simp_all add: recalculated_def with_trends_def with_dedication_def with_burnout_risk_def)
  then show ?thesis
    unfolding with_dedication_def[of "recalculated data today"]
    by (simp add: recalculated_def with_dedication_def with_burnout_risk_def)
qed

lemma recalculated_idem:
  "recalculated (recalculated data today) today = recalculated data today"
proof -
  have "recalculated (recalculated data today) today =
        with_burnout_risk (recalculated data today)"
    unfolding recalculated_def[of "recalculated data today"]
    by (simp only: with_trends_recalculated with_dedication_recalculated)
  also have "\<dots> = recalculated data today"
    unfolding recalculated_def by (rule with_burnout_risk_fixed)
  finally show ?thesis .
qed

lemma update_absence_counter_idem:
  "update_absence_counter today (snd (update_absence_counter today stored)) =
     update_absence_counter today stored"
  by (auto simp: update_absence_counter_def split: option.splits sum.splits)

lemma last_task_date_recalculated:
  "last_task_date_parses (recalculated data today) = last_task_date_parses data"
  by (simp add: last_task_date_parses_def recalculated_def with_trends_def with_dedication_def
      with_burnout_risk_def)

section \<open>Recalculation: the burnout risk\<close>

lemma five_hectic_plans_value:
  "five_hectic_plans =
     (get_default_data (jan 1))
       \<lparr>plan := [(''2025-01-05'',
           \<lparr>tasks = [], plan_context = ''hectic'', energy_level = ''high'',
            total_time = FP 0 0, created_at = ''2025-01-05T08:00:00''\<rparr>)],
        analytics := (analytics (get_default_data (jan 1)))
           \<lparr>last_task_date := Some ''2025-01-05'',
            consecutive_high_intensity_days := 5\<rparr>\<rparr>"
  by code_simp

lemma five_hectic_plans_answer:
  "get_analytics_context (jan 5) five_hectic_plans =
     (Inr ((analytics five_hectic_plans)
             \<lparr>dedication_percentage := dec 4 10, burnout_risk := ''high''\<rparr>),
      five_hectic_plans\<lparr>analytics := (analytics five_hectic_plans)
             \<lparr>dedication_percentage := dec 4 10, burnout_risk := ''high''\<rparr>\<rparr>)"
  by code_simp

lemma burnout_threshold_values:
  "flt (FP 0 0) (dec 6 10)"
  "flt (dec 4 10) (dec 5 10)"
  "decimal_score (decimal_contributions 5 True True ''N/A'' 0) = 80"
  "decimal_band 80 = ''critical''"
  "foldl fadd (FP 0 0) [dec 3 10, dec 2 10, dec 2 10, dec 1 10] = FP 7205759403792793 (- 53)"
  "dec 8 10 = FP 7205759403792794 (- 53)"
  "risk_band (FP 7205759403792793 (- 53)) = ''high''"
  by code_simp+

text \<open>
  C5 (the code departs from the claim). After five hectic plans and no report,
  \<open>get_analytics_context\<close> recalculates: the intensity is 5, the 7-day trend 0.0, the
  dedication 0.4, the phase \<open>N/A\<close> and the absence counter 0. The contributions of the
  claim that apply are 0.3, 0.2, 0.2 and 0.1; their sum is 0.8 and the claimed band
  is \<open>critical\<close>. The code adds them as doubles, reaches 0.7999999999999999, which is
  below the double 0.8, and answers \<open>high\<close>.
\<close>

theorem burnout_risk_misses_critical_threshold:
  "get_analytics_context (jan 5) five_hectic_plans =
     (Inr ((analytics five_hectic_plans)
             \<lparr>dedication_percentage := dec 4 10, burnout_risk := ''high''\<rparr>),
      five_hectic_plans\<lparr>analytics := (analytics five_hectic_plans)
             \<lparr>dedication_percentage := dec 4 10, burnout_risk := ''high''\<rparr>\<rparr>) \<and>
   consecutive_high_intensity_days (analytics five_hectic_plans) = 5 \<and>
   last_7_days (analytics five_hectic_plans) = FP 0 0 \<and>
   semester_phase (analytics five_hectic_plans) = ''N/A'' \<and>
   absence_counter (analytics five_hectic_plans) = 0 \<and>
   decimal_score (decimal_contributions 5 True True ''N/A'' 0) = 80 \<and>
   claimed_burnout_risk ((analytics five_hectic_plans)
      \<lparr>dedication_percentage := dec 4 10, burnout_risk := ''high''\<rparr>) = ''critical'' \<and>
   foldl fadd (FP 0 0) [dec 3 10, dec 2 10, dec 2 10, dec 1 10] = FP 7205759403792793 (- 53) \<and>
   dec 8 10 = FP 7205759403792794 (- 53)"
proof -
  have f: "consecutive_high_intensity_days (analytics five_hectic_plans) = 5"
    "last_7_days (analytics five_hectic_plans) = FP 0 0"
    "semester_phase (analytics five_hectic_plans) = ''N/A''"
    "absence_counter (analytics five_hectic_plans) = 0"
    by (simp_all add: five_hectic_plans_value get_default_data_def)
  have c: "claimed_burnout_risk ((analytics five_hectic_plans)
      \<lparr>dedication_percentage := dec 4 10, burnout_risk := ''high''\<rparr>) = ''critical''"
    by (simp add: claimed_burnout_risk_def f burnout_threshold_values)
  from five_hectic_plans_answer f c burnout_threshold_values show ?thesis by simp
qed

section \<open>Recalculation: idempotence\<close>

text \<open>
  C8. Recalculating twice on the same day is recalculating once: when
  \<open>_update_full_analytics\<close> returns, a second call on the returned document and the
  stored document it left returns the same document and leaves the same stored
  document, so no analytics field changes. The same holds of the stored document
  through \<open>get_analytics_context\<close>, which saves what the recalculation returns. (When
  \<open>last_task_date\<close> does not parse the recalculation raises \<open>ValueError\<close> and nothing
  has changed.)
\<close>

theorem update_full_analytics_idempotent:
  "(update_full_analytics data today stored = (Inr data', stored') \<longrightarrow>
      update_full_analytics data' today stored' = (Inr data', stored')) \<and>
   (get_analytics_context today stored = (Inr a, stored') \<longrightarrow>
      get_analytics_context today stored' = (Inr a, stored')) \<and>
   (update_full_analytics data today stored = (Inl e, stored') \<longrightarrow>
      e = ValueError \<and> stored' = stored) \<and>
   (last_task_date_parses stored \<longrightarrow>
      (\<exists>d s. update_full_analytics data today stored = (Inr d, s)))"
proof (intro conjI impI)
  assume a: "update_full_analytics data today stored = (Inr data', stored')"
  note d = update_full_analytics_InrD[OF a]
  show "update_full_analytics data' today stored' = (Inr data', stored')"
    unfolding d(1) d(2)
    by (simp add: update_full_analytics_eq update_absence_counter_idem d(3) recalculated_idem)
next
  assume a: "get_analytics_context today stored = (Inr a, stored')"
  then have p: "last_task_date_parses stored"
    and s: "stored' = recalculated stored today" and an: "a = analytics stored'"
    by (auto simp: get_analytics_context_def update_full_analytics_eq
        fst_update_absence_counter split: if_splits)
  have p': "last_task_date_parses stored'"
    unfolding s by (simp add: last_task_date_recalculated p)
  show "get_analytics_context today stored' = (Inr a, stored')"
    using p' an
    by (simp add: get_analytics_context_def update_full_analytics_parses s recalculated_idem)
next
  assume a: "update_full_analytics data today stored = (Inl e, stored')"
  show "e = ValueError" by (rule update_full_analytics_InlD(1)[OF a])
  show "stored' = stored" by (rule update_full_analytics_InlD(2)[OF a])
next
  assume "last_task_date_parses stored"
  then show "\<exists>d s. update_full_analytics data today stored = (Inr d, s)"
    by (simp add: update_full_analytics_parses)
qed

theorem update_full_analytics_idempotent_witness:
  "update_full_analytics (get_default_data (jan 1)) (jan 10) (get_default_data (jan 1)) =
     (Inr ((get_default_data (jan 1))\<lparr>analytics := (analytics (get_default_data (jan 1)))
             \<lparr>dedication_percentage := dec 5 10\<rparr>\<rparr>),
      (get_default_data (jan 1))\<lparr>analytics := (analytics (get_default_data (jan 1)))
             \<lparr>absence_counter := 8\<rparr>\<rparr>) \<and>
   update_full_analytics
     ((get_default_data (jan 1))\<lparr>analytics := (analytics (get_default_data (jan 1)))
             \<lparr>dedication_percentage := dec 5 10\<rparr>\<rparr>) (jan 10)
     ((get_default_data (jan 1))\<lparr>analytics := (analytics (get_default_data (jan 1)))
             \<lparr>absence_counter := 8\<rparr>\<rparr>) =
     (Inr ((get_default_data (jan 1))\<lparr>analytics := (analytics (get_default_data (jan 1)))
             \<lparr>dedication_percentage := dec 5 10\<rparr>\<rparr>),
      (get_default_data (jan 1))\<lparr>analytics := (analytics (get_default_data (jan 1)))
             \<lparr>absence_counter := 8\<rparr>\<rparr>)"
proof -
  note again = update_full_analytics_idempotent[where data="get_default_data (jan 1)"
      and today="jan 10" and stored="get_default_data (jan 1)", THEN conjunct1, THEN mp,
      OF recompute_after_nine_days]
  from recompute_after_nine_days again show ?thesis by (rule conjI)
qed

section \<open>Report ingestion\<close>

lemma map_of_dict_set: "map_of (dict_set k v d) = (map_of d)(k \<mapsto> v)"
  by (induction d) (auto simp: fun_eq_iff)

lemma keys_map_of: "(k \<in> set (dict_keys d)) = (map_of d k \<noteq> None)"
  by (simp add: dict_keys_def map_of_eq_None_iff)

lemma skip_step_skips:
  "skips_of (fst (skip_step t st)) k =
     skips_of (fst st) k + (if task_name_base (item_name t) = k then 1 else 0)"
  by (auto simp: skip_step_def Let_def skips_of_def map_of_dict_set keys_map_of
      split: option.splits)

lemma skip_step_reasons:
  "reasons_of (fst (skip_step t st)) k =
     reasons_of (fst st) k @ (if task_name_base (item_name t) = k then [reason_or_unknown t] else [])"
  by (auto simp: skip_step_def Let_def reasons_of_def map_of_dict_set keys_map_of
      reason_or_unknown_def split: option.splits)

lemma skip_step_alerts:
  "snd (skip_step t st) =
     snd st @ (if 3 \<le> skips_of (fst (skip_step t st)) (task_name_base (item_name t))
               then [pattern_alert (task_name_base (item_name t))] else [])"
  by (auto simp: skip_step_def Let_def skips_of_def map_of_dict_set keys_map_of
      split: option.splits)

lemma skip_loop_skips:
  "skips_of (fst (skip_loop ts st)) k = skips_of (fst st) k + int (length (skipped_with_key ts k))"
  by (induction ts arbitrary: st) (auto simp: skip_step_skips skipped_with_key_def)

lemma skip_loop_reasons:
  "reasons_of (fst (skip_loop ts st)) k =
     reasons_of (fst st) k @ map reason_or_unknown (skipped_with_key ts k)"
  by (induction ts arbitrary: st) (auto simp: skip_step_reasons skipped_with_key_def)

lemma pattern_alert_inj: "pattern_alert a = pattern_alert b \<longleftrightarrow> a = b"
  by (simp add: pattern_alert_def)

lemma skip_loop_alerts:
  "set (snd (skip_loop ts st)) =
     set (snd st) \<union>
     pattern_alert ` {k \<in> (\<lambda>t. task_name_base (item_name t)) ` set ts.
                        3 \<le> skips_of (fst (skip_loop ts st)) k}"
proof (induction ts arbitrary: st)
  case Nil
  then show ?case by simp
next
  case (Cons t ts)
  let ?b = "task_name_base (item_name t)"
  let ?st1 = "skip_step t st"
  let ?fin = "\<lambda>k. skips_of (fst (skip_loop ts ?st1)) k"
  let ?K = "(\<lambda>t. task_name_base (item_name t)) ` set ts"
  let ?S = "{k \<in> ?K. 3 \<le> ?fin k}"
  have mono: "skips_of (fst ?st1) ?b \<le> ?fin ?b"
    by (simp add: skip_loop_skips)
  have same: "?fin ?b = skips_of (fst ?st1) ?b" if "?b \<notin> ?K"
    using that by (force simp: skip_loop_skips skipped_with_key_def filter_empty_conv image_iff)
  have S': "{k \<in> (\<lambda>t. task_name_base (item_name t)) ` set (t # ts). 3 \<le> ?fin k} =
            ?S \<union> (if 3 \<le> ?fin ?b then {?b} else {})"
    by auto
  have first: "(if 3 \<le> skips_of (fst ?st1) ?b then {pattern_alert ?b} else {}) \<union> pattern_alert ` ?S =
        pattern_alert ` ?S \<union> (if 3 \<le> ?fin ?b then {pattern_alert ?b} else {})"
  proof (cases "3 \<le> skips_of (fst ?st1) ?b")
    case True
    with mono have "3 \<le> ?fin ?b" by linarith
    with True show ?thesis by auto
  next
    case False
    show ?thesis
    proof (cases "3 \<le> ?fin ?b")
      case True
      with False same have "?b \<in> ?K" by auto
      with True have "?b \<in> ?S" by simp
      then have "pattern_alert ?b \<in> pattern_alert ` ?S" by (rule imageI)
      with False True show ?thesis by auto
    next
      case no: False
      with False show ?thesis by simp
    qed
  qed
  have "set (snd (skip_loop (t # ts) st)) = set (snd ?st1) \<union> pattern_alert ` ?S"
    using Cons.IH[of ?st1] by simp
  also have "set (snd ?st1) =
      set (snd st) \<union> (if 3 \<le> skips_of (fst ?st1) ?b then {pattern_alert ?b} else {})"
    by (subst skip_step_alerts) auto
  also have "set (snd st) \<union> (if 3 \<le> skips_of (fst ?st1) ?b then {pattern_alert ?b} else {})
      \<union> pattern_alert ` ?S =
      set (snd st) \<union> (pattern_alert ` ?S \<union> (if 3 \<le> ?fin ?b then {pattern_alert ?b} else {}))"
    using first by (simp add: Un_assoc)
  also have "pattern_alert ` ?S \<union> (if 3 \<le> ?fin ?b then {pattern_alert ?b} else {}) =
      pattern_alert ` {k \<in> (\<lambda>t. task_name_base (item_name t)) ` set (t # ts). 3 \<le> ?fin k}"
    unfolding S' by auto
  finally show ?case by simp
qed

lemma reports_recalculated: "reports (recalculated data today) = reports data"
  by (simp add: recalculated_def with_trends_def with_dedication_def with_burnout_risk_def)

lemma problem_tasks_recalculated:
  "problem_tasks (analytics (recalculated data today)) = problem_tasks (analytics data)"
  by (simp add: recalculated_def with_trends_def with_dedication_def with_burnout_risk_def)

lemma report_normal:
  assumes "\<not> was_holiday args" and "\<not> was_absent args"
    and "map_of (plan stored) (arg_date args) = Some pl"
    and "last_task_date_parses stored"
  obtains stored' where
    "report args today time_of_day stored =
       (Inr (ReportLogged (dedication_percentage (analytics stored'))
          (snd (skip_loop (arg_skipped args) (problem_tasks (analytics stored), [])))), stored')"
    and "reports stored' =
       dict_set (arg_date args)
         \<lparr>completed = arg_completed args, partial = arg_partial args,
          skipped = arg_skipped args,
          completion_rate = round2 (if 0 < int (length (tasks pl))
             then int_truediv (int (length (arg_completed args))) (int (length (tasks pl)))
             else FP 0 0),
          reported_at = datetime_isoformat today time_of_day\<rparr> (reports stored)"
    and "problem_tasks (analytics stored') =
       fst (skip_loop (arg_skipped args) (problem_tasks (analytics stored), []))"
proof -
  define data1 where "data1 = stored\<lparr>reports := dict_set (arg_date args)
         \<lparr>completed = arg_completed args, partial = arg_partial args,
          skipped = arg_skipped args,
          completion_rate = round2 (if 0 < int (length (tasks pl))
             then int_truediv (int (length (arg_completed args))) (int (length (tasks pl)))
             else FP 0 0),
          reported_at = datetime_isoformat today time_of_day\<rparr> (reports stored)\<rparr>"
  define looped where
    "looped = skip_loop (arg_skipped args) (problem_tasks (analytics stored), [])"
  define data2 where "data2 = data1\<lparr>analytics := (analytics data1)\<lparr>problem_tasks := fst looped\<rparr>\<rparr>"
  have r: "report args today time_of_day stored =
       (Inr (ReportLogged (dedication_percentage (analytics (recalculated data2 today)))
          (snd looped)), recalculated data2 today)"
    using assms
    by (simp add: report_def Let_def update_full_analytics_parses data1_def data2_def looped_def)
  show ?thesis
  proof (rule that[of "recalculated data2 today"])
    show "report args today time_of_day stored =
       (Inr (ReportLogged (dedication_percentage (analytics (recalculated data2 today)))
          (snd (skip_loop (arg_skipped args) (problem_tasks (analytics stored), [])))),
        recalculated data2 today)"
      using r by (simp add: looped_def)
    show "reports (recalculated data2 today) =
       dict_set (arg_date args)
         \<lparr>completed = arg_completed args, partial = arg_partial args,
          skipped = arg_skipped args,
          completion_rate = round2 (if 0 < int (length (tasks pl))
             then int_truediv (int (length (arg_completed args))) (int (length (tasks pl)))
             else FP 0 0),
          reported_at = datetime_isoformat today time_of_day\<rparr> (reports stored)"
      by (simp add: reports_recalculated data2_def data1_def)
    show "problem_tasks (analytics (recalculated data2 today)) =
       fst (skip_loop (arg_skipped args) (problem_tasks (analytics stored), []))"
      by (simp add: problem_tasks_recalculated data2_def looped_def)
  qed
qed

lemma round2_zero: "round2 (FP 0 0) = FP 0 0"
  by code_simp

lemma half_rate: "round2 (int_truediv 2 4) = dec 5 10"
  by code_simp

text \<open>
  C6, amended. For a normal report (neither holiday nor absence) on a date that has a
  plan, \<open>report\<close> stores a Report whose \<open>completion_rate\<close> is
  \<open>|completed| / |plan.tasks|\<close> rounded to two decimals, and 0 when the plan has no
  tasks; four tasks and two completed names give 0.5. (\<open>report\<close> returns and stores
  whenever \<open>last_task_date\<close> is absent, empty or a date.)
\<close>

theorem report_completion_rate:
  "\<not> was_holiday args \<and> \<not> was_absent args \<and>
   map_of (plan stored) (arg_date args) = Some pl \<and> last_task_date_parses stored \<longrightarrow>
   (\<exists>new_dedication alerts stored' r.
      report args today time_of_day stored = (Inr (ReportLogged new_dedication alerts), stored') \<and>
      map_of (reports stored') (arg_date args) = Some r \<and>
      completion_rate r =
        (if tasks pl = [] then FP 0 0
         else round2 (int_truediv (int (length (arg_completed args))) (int (length (tasks pl))))) \<and>
      (length (tasks pl) = 4 \<and> length (arg_completed args) = 2 \<longrightarrow>
         completion_rate r = dec 5 10))"
proof
  assume a: "\<not> was_holiday args \<and> \<not> was_absent args \<and>
   map_of (plan stored) (arg_date args) = Some pl \<and> last_task_date_parses stored"
  then obtain stored' where
    r: "report args today time_of_day stored =
       (Inr (ReportLogged (dedication_percentage (analytics stored'))
          (snd (skip_loop (arg_skipped args) (problem_tasks (analytics stored), [])))), stored')"
    and rs: "reports stored' =
       dict_set (arg_date args)
         \<lparr>completed = arg_completed args, partial = arg_partial args,
          skipped = arg_skipped args,
          completion_rate = round2 (if 0 < int (length (tasks pl))
             then int_truediv (int (length (arg_completed args))) (int (length (tasks pl)))
             else FP 0 0),
          reported_at = datetime_isoformat today time_of_day\<rparr> (reports stored)"
    by (elim conjE report_normal[where today=today and time_of_day=time_of_day]) blast
  let ?r = "\<lparr>completed = arg_completed args, partial = arg_partial args,
          skipped = arg_skipped args,
          completion_rate = round2 (if 0 < int (length (tasks pl))
             then int_truediv (int (length (arg_completed args))) (int (length (tasks pl)))
             else FP 0 0),
          reported_at = datetime_isoformat today time_of_day\<rparr>"
  have m: "map_of (reports stored') (arg_date args) = Some ?r"
    by (simp add: rs map_of_dict_set)
  have c: "completion_rate ?r =
        (if tasks pl = [] then FP 0 0
         else round2 (int_truediv (int (length (arg_completed args))) (int (length (tasks pl)))))"
    by (simp add: round2_zero)
  have h: "length (tasks pl) = 4 \<and> length (arg_completed args) = 2 \<longrightarrow>
         completion_rate ?r = dec 5 10"
    by (auto simp: half_rate)
  from r m c h show "\<exists>new_dedication alerts stored' r.
      report args today time_of_day stored = (Inr (ReportLogged new_dedication alerts), stored') \<and>
      map_of (reports stored') (arg_date args) = Some r \<and>
      completion_rate r =
        (if tasks pl = [] then FP 0 0
         else round2 (int_truediv (int (length (arg_completed args))) (int (length (tasks pl))))) \<and>
      (length (tasks pl) = 4 \<and> length (arg_completed args) = 2 \<longrightarrow>
         completion_rate r = dec 5 10)"
    by blast
qed

text \<open>
  C7, amended. For a normal report, every skipped task is counted under the part of
  its name before the first space character: that key's \<open>skip_count\<close> grows by the
  number of skipped tasks under it and their reasons are appended in order. The
  answer's alerts contain the entry of a key exactly when the report skips a task
  under that key and the key's count after the report is at least 3: the alert is
  raised by the report that reaches 3 and by every later report that skips the key.
\<close>

theorem report_skip_patterns:
  "\<not> was_holiday args \<and> \<not> was_absent args \<and>
   map_of (plan stored) (arg_date args) = Some pl \<and> last_task_date_parses stored \<longrightarrow>
   (\<exists>new_dedication alerts stored'.
      report args today time_of_day stored = (Inr (ReportLogged new_dedication alerts), stored') \<and>
      (\<forall>k. skips_of (problem_tasks (analytics stored')) k =
             skips_of (problem_tasks (analytics stored)) k
               + int (length (skipped_with_key (arg_skipped args) k))) \<and>
      (\<forall>k. reasons_of (problem_tasks (analytics stored')) k =
             reasons_of (problem_tasks (analytics stored)) k
               @ map reason_or_unknown (skipped_with_key (arg_skipped args) k)) \<and>
      (\<forall>k. pattern_alert k \<in> set alerts \<longleftrightarrow>
             skipped_with_key (arg_skipped args) k \<noteq> [] \<and>
             3 \<le> skips_of (problem_tasks (analytics stored')) k))"
proof
  assume a: "\<not> was_holiday args \<and> \<not> was_absent args \<and>
   map_of (plan stored) (arg_date args) = Some pl \<and> last_task_date_parses stored"
  then obtain stored' where
    r: "report args today time_of_day stored =
       (Inr (ReportLogged (dedication_percentage (analytics stored'))
          (snd (skip_loop (arg_skipped args) (problem_tasks (analytics stored), [])))), stored')"
    and pt: "problem_tasks (analytics stored') =
       fst (skip_loop (arg_skipped args) (problem_tasks (analytics stored), []))"
    by (elim conjE report_normal[where today=today and time_of_day=time_of_day]) blast
  let ?alerts = "snd (skip_loop (arg_skipped args) (problem_tasks (analytics stored), []))"
  have k1: "\<forall>k. skips_of (problem_tasks (analytics stored')) k =
             skips_of (problem_tasks (analytics stored)) k
               + int (length (skipped_with_key (arg_skipped args) k))"
    by (simp add: pt skip_loop_skips)
  have k2: "\<forall>k. reasons_of (problem_tasks (analytics stored')) k =
             reasons_of (problem_tasks (analytics stored)) k
               @ map reason_or_unknown (skipped_with_key (arg_skipped args) k)"
    by (simp add: pt skip_loop_reasons)
  have key: "(skipped_with_key ts k \<noteq> []) = (k \<in> (\<lambda>t. task_name_base (item_name t)) ` set ts)"
    for ts k
    by (auto simp: skipped_with_key_def filter_empty_conv)
  have k3: "\<forall>k. pattern_alert k \<in> set ?alerts \<longleftrightarrow>
             skipped_with_key (arg_skipped args) k \<noteq> [] \<and>
             3 \<le> skips_of (problem_tasks (analytics stored')) k"
    unfolding pt key
    by (subst skip_loop_alerts) (auto simp: pattern_alert_inj)
  from r k1 k2 k3 show "\<exists>new_dedication alerts stored'.
      report args today time_of_day stored = (Inr (ReportLogged new_dedication alerts), stored') \<and>
      (\<forall>k. skips_of (problem_tasks (analytics stored')) k =
             skips_of (problem_tasks (analytics stored)) k
               + int (length (skipped_with_key (arg_skipped args) k))) \<and>
      (\<forall>k. reasons_of (problem_tasks (analytics stored')) k =
             reasons_of (problem_tasks (analytics stored)) k
               @ map reason_or_unknown (skipped_with_key (arg_skipped args) k)) \<and>
      (\<forall>k. pattern_alert k \<in> set alerts \<longleftrightarrow>
             skipped_with_key (arg_skipped args) k \<noteq> [] \<and>
             3 \<le> skips_of (problem_tasks (analytics stored')) k)"
    by blast
qed

lemma strptime_feb_1: "strptime ''2025-02-01'' = Inr feb_1"
  by code_simp

lemma planned_document_facts:
  "map_of (plan (planned_document names pt)) ''2025-02-01'' = Some (plan_of_tasks names)"
  "last_task_date_parses (planned_document names pt)"
  "problem_tasks (analytics (planned_document names pt)) = pt"
  "length (tasks (plan_of_tasks names)) = length names"
  by (simp_all add: planned_document_def get_default_data_def last_task_date_parses_def
      isoformat_def feb_1_def digit_char_def strptime_feb_1[unfolded feb_1_def] plan_of_tasks_def)

lemma normal_report_facts:
  "\<not> was_holiday (normal_report done skips)" "\<not> was_absent (normal_report done skips)"
  "arg_date (normal_report done skips) = ''2025-02-01''"
  "arg_completed (normal_report done skips) = done"
  "arg_skipped (normal_report done skips) = skips"
  by (simp_all add: normal_report_def)

lemma third_of_three:
  "stored_rate (snd (report (normal_report [''Math''] []) feb_1 ''21:00:00''
      (planned_document [''Math'', ''Essay'', ''Run''] []))) ''2025-02-01'' = Some (dec 33 100)"
  by code_simp

lemma third_is_not_33_hundredths:
  "int_truediv 1 3 = FP 6004799503160661 (- 54) \<and> dec 33 100 = FP 5944751508129055 (- 54)"
  by code_simp

text \<open>
  C6, as claimed, fails: with one of three planned tasks completed the stored rate is
  0.33, the quotient rounded to two decimals, and not the quotient 1/3.
\<close>

theorem report_rate_is_rounded:
  "stored_rate (snd (report (normal_report [''Math''] []) feb_1 ''21:00:00''
      (planned_document [''Math'', ''Essay'', ''Run''] []))) ''2025-02-01'' = Some (dec 33 100) \<and>
   int_truediv (int (length [''Math''])) (int (length [''Math'', ''Essay'', ''Run''])) =
     FP 6004799503160661 (- 54) \<and>
   dec 33 100 = FP 5944751508129055 (- 54) \<and>
   dec 33 100 \<noteq> int_truediv (int (length [''Math''])) (int (length [''Math'', ''Essay'', ''Run'']))"
  using third_of_three third_is_not_33_hundredths by simp

theorem report_completion_rate_witness:
  "(\<not> was_holiday (normal_report [''Math'', ''Essay''] []) \<and>
    \<not> was_absent (normal_report [''Math'', ''Essay''] []) \<and>
    map_of (plan (planned_document [''Math'', ''Essay'', ''Run'', ''Read''] []))
      (arg_date (normal_report [''Math'', ''Essay''] [])) =
      Some (plan_of_tasks [''Math'', ''Essay'', ''Run'', ''Read'']) \<and>
    last_task_date_parses (planned_document [''Math'', ''Essay'', ''Run'', ''Read''] [])) \<and>
   stored_rate (snd (report (normal_report [''Math'', ''Essay''] []) feb_1 ''21:00:00''
      (planned_document [''Math'', ''Essay'', ''Run'', ''Read''] []))) ''2025-02-01'' =
     Some (dec 5 10)"
proof -
  let ?args = "normal_report [''Math'', ''Essay''] []"
  let ?doc = "planned_document [''Math'', ''Essay'', ''Run'', ''Read''] []"
  have h: "\<not> was_holiday ?args \<and> \<not> was_absent ?args \<and>
    map_of (plan ?doc) (arg_date ?args) = Some (plan_of_tasks [''Math'', ''Essay'', ''Run'', ''Read'']) \<and>
    last_task_date_parses ?doc"
    by (simp add: normal_report_facts planned_document_facts)
  from report_completion_rate[where args="?args" and stored="?doc"
      and pl="plan_of_tasks [''Math'', ''Essay'', ''Run'', ''Read'']"
      and today=feb_1 and time_of_day="''21:00:00''", THEN mp, OF h]
  obtain new_dedication alerts stored' r where
    r: "report ?args feb_1 ''21:00:00'' ?doc = (Inr (ReportLogged new_dedication alerts), stored')"
    and m: "map_of (reports stored') (arg_date ?args) = Some r"
    and c: "length (tasks (plan_of_tasks [''Math'', ''Essay'', ''Run'', ''Read''])) = 4 \<and>
            length (arg_completed ?args) = 2 \<longrightarrow> completion_rate r = dec 5 10"
    by blast
  from c have "completion_rate r = dec 5 10"
    by (simp add: normal_report_facts planned_document_facts)
  with r m have "stored_rate (snd (report ?args feb_1 ''21:00:00'' ?doc)) ''2025-02-01'' =
      Some (dec 5 10)"
    by (simp add: stored_rate_def normal_report_facts)
  with h show ?thesis by blast
qed

lemma tab_name_tokens:
  "first_whitespace_token tab_name = ''Math'' \<and> task_name_base tab_name = tab_name \<and>
   tab_name \<noteq> ''Math''"
  by code_simp

lemma tab_name_report:
  "report (normal_report [] [\<lparr>item_name = tab_name, item_reason = Some ''ill''\<rparr>]) feb_1
      ''21:00:00''
      (planned_document [tab_name]
         [(''Math'', \<lparr>skip_count = 2, skip_reasons = [''tired'', ''busy'']\<rparr>)]) =
   (Inr (ReportLogged (dec 5 10) []),
    (planned_document [tab_name]
       [(''Math'', \<lparr>skip_count = 2, skip_reasons = [''tired'', ''busy'']\<rparr>),
        (tab_name, \<lparr>skip_count = 1, skip_reasons = [''ill'']\<rparr>)])
      \<lparr>reports := [(''2025-02-01'',
          \<lparr>completed = [], partial = [],
           skipped = [\<lparr>item_name = tab_name, item_reason = Some ''ill''\<rparr>],
           completion_rate = FP 0 0, reported_at = ''2025-02-01T21:00:00''\<rparr>)],
       analytics := (analytics (planned_document [tab_name]
         [(''Math'', \<lparr>skip_count = 2, skip_reasons = [''tired'', ''busy'']\<rparr>),
          (tab_name, \<lparr>skip_count = 1, skip_reasons = [''ill'']\<rparr>)]))
          \<lparr>dedication_percentage := dec 5 10\<rparr>\<rparr>)"
  by code_simp

text \<open>
  C7, as claimed, fails: the name \<open>Math<TAB>quiz\<close> has the first whitespace-delimited
  token \<open>Math\<close>, but \<open>split(" ")\<close> cuts at space characters only, and the skip is
  counted under the whole name. \<open>Math\<close>, skipped twice before, stays at 2 and no
  alert is raised.
\<close>

theorem report_groups_by_space_not_whitespace:
  "first_whitespace_token tab_name = ''Math'' \<and> task_name_base tab_name = tab_name \<and>
   tab_name \<noteq> ''Math'' \<and>
   alerts_of (fst (report
      (normal_report [] [\<lparr>item_name = tab_name, item_reason = Some ''ill''\<rparr>]) feb_1
      ''21:00:00''
      (planned_document [tab_name]
         [(''Math'', \<lparr>skip_count = 2, skip_reasons = [''tired'', ''busy'']\<rparr>)]))) = [] \<and>
   problem_tasks (analytics (snd (report
      (normal_report [] [\<lparr>item_name = tab_name, item_reason = Some ''ill''\<rparr>]) feb_1
      ''21:00:00''
      (planned_document [tab_name]
         [(''Math'', \<lparr>skip_count = 2, skip_reasons = [''tired'', ''busy'']\<rparr>)])))) =
     [(''Math'', \<lparr>skip_count = 2, skip_reasons = [''tired'', ''busy'']\<rparr>),
      (tab_name, \<lparr>skip_count = 1, skip_reasons = [''ill'']\<rparr>)]"
  using tab_name_tokens
  by (simp add: tab_name_report alerts_of_def planned_document_facts)

theorem report_skip_patterns_witness:
  "pattern_alert ''Math'' \<in> set (alerts_of (fst (report (normal_report [] [math_skip]) feb_1
      ''21:00:00''
      (planned_document [''Math quiz'']
         [(''Math'', \<lparr>skip_count = 2, skip_reasons = [''tired'', ''busy'']\<rparr>)])))) \<and>
   pattern_alert ''Math'' \<in> set (alerts_of (fst (report (normal_report [] [math_skip]) feb_1
      ''21:00:00''
      (planned_document [''Math quiz'']
         [(''Math'', \<lparr>skip_count = 3, skip_reasons = [''tired'', ''busy'', ''too hard'']\<rparr>)]))))"
proof -
  have fires: "pattern_alert ''Math'' \<in> set (alerts_of (fst (report (normal_report [] [math_skip])
      feb_1 ''21:00:00'' (planned_document [''Math quiz''] [(''Math'', e)]))))"
    if e: "2 \<le> skip_count e" for e
  proof -
    let ?args = "normal_report [] [math_skip]"
    let ?doc = "planned_document [''Math quiz''] [(''Math'', e)]"
    have h: "\<not> was_holiday ?args \<and> \<not> was_absent ?args \<and>
      map_of (plan ?doc) (arg_date ?args) = Some (plan_of_tasks [''Math quiz'']) \<and>
      last_task_date_parses ?doc"
      by (simp add: normal_report_facts planned_document_facts)
    from report_skip_patterns[where args="?args" and stored="?doc"
        and pl="plan_of_tasks [''Math quiz'']" and today=feb_1 and time_of_day="''21:00:00''",
        THEN mp, OF h]
    obtain new_dedication alerts stored' where
      r: "report ?args feb_1 ''21:00:00'' ?doc = (Inr (ReportLogged new_dedication alerts), stored')"
      and n: "skips_of (problem_tasks (analytics stored')) ''Math'' =
             skips_of (problem_tasks (analytics ?doc)) ''Math''
               + int (length (skipped_with_key (arg_skipped ?args) ''Math''))"
      and a: "pattern_alert ''Math'' \<in> set alerts \<longleftrightarrow>
             skipped_with_key (arg_skipped ?args) ''Math'' \<noteq> [] \<and>
             3 \<le> skips_of (problem_tasks (analytics stored')) ''Math''"
      by blast
    have k: "skipped_with_key (arg_skipped ?args) ''Math'' = [math_skip]"
      by (simp add: normal_report_facts skipped_with_key_def math_skip_def task_name_base_def)
    have "skips_of (problem_tasks (analytics ?doc)) ''Math'' = skip_count e"
      by (simp add: planned_document_facts skips_of_def)
    with n k e have "3 \<le> skips_of (problem_tasks (analytics stored')) ''Math''" by simp
    with a k have "pattern_alert ''Math'' \<in> set alerts" by simp
    with r show ?thesis by (simp add: alerts_of_def)
  qed
  show ?thesis by (intro conjI fires) simp_all
qed

section \<open>The plan mapping\<close>

lemma plan_update_absence_counter:
  "plan (snd (update_absence_counter today stored)) = plan stored"
  by (simp add: snd_update_absence_counter split: option.splits sum.splits)

lemma plan_recalculated: "plan (recalculated data today) = plan data"
  by (simp add: recalculated_def with_trends_def with_dedication_def with_burnout_risk_def)

lemma plan_check_readiness:
  "plan (snd (check_readiness_for_planning today stored)) = plan stored"
  using snd_check_readiness[where today=today and stored=stored]
  by (auto simp: plan_update_absence_counter)

lemma plan_report: "plan (snd (report args today time_of_day stored)) = plan stored"
  by (simp add: report_def Let_def update_full_analytics_eq plan_recalculated
      plan_update_absence_counter split: option.splits sum.splits)

lemma plan_get_analytics_context: "plan (snd (get_analytics_context today stored)) = plan stored"
  by (simp add: get_analytics_context_def update_full_analytics_eq plan_recalculated
      plan_update_absence_counter split: sum.splits)

lemma snd_validate_day_off_request:
  "snd (validate_day_off_request today stored) = snd (update_absence_counter today stored)"
proof -
  obtain r s where u: "update_full_analytics stored today stored = (r, s)"
    by (cases "update_full_analytics stored today stored")
  have s: "s = snd (update_absence_counter today stored)"
    using snd_update_full_analytics[where data=stored and today=today and stored=stored] u
    by simp
  show ?thesis
  proof (cases r)
    case (Inl e)
    with u s show ?thesis by (simp add: validate_day_off_request_def)
  next
    case (Inr data)
    show ?thesis
      unfolding validate_day_off_request_def u Inr s
      by (simp only: prod.case sum.case Let_def snd_conv if_distrib[where f=snd]
          sum.case_distrib[where h=snd] if_cancel sum.case_eq_if)
  qed
qed

lemma plan_set_daily_plan:
  "plan (snd (set_daily_plan date task_list ctx energy today time_of_day stored)) =
     [(date, fst (set_daily_plan date task_list ctx energy today time_of_day stored))]"
  by (simp add: set_daily_plan_def Let_def)

lemma plan_stored_after:
  "\<not> is_set_daily_plan call \<Longrightarrow> plan (stored_after call today time_of_day stored) = plan stored"
  by (cases call)
    (simp_all add: stored_after_def is_set_daily_plan_def plan_check_readiness plan_report
      plan_get_analytics_context snd_validate_day_off_request plan_update_absence_counter
      get_recent_reports_tool_def update_semester_phase_def show_long_term_tasks_def
      edit_long_term_tasks_def)

lemma length_plan_stored_after:
  "length (plan stored) \<le> 1 \<Longrightarrow> length (plan (stored_after call today time_of_day stored)) \<le> 1"
proof (cases "is_set_daily_plan call")
  case True
  then obtain date task_list ctx energy where "call = SetDailyPlan date task_list ctx energy"
    by (cases call) (simp_all add: is_set_daily_plan_def)
  then show ?thesis by (simp add: stored_after_def plan_set_daily_plan)
next
  case False
  assume "length (plan stored) \<le> 1"
  with plan_stored_after[OF False] show ?thesis by simp
qed

lemma length_plan_run_calls:
  "length (plan stored) \<le> 1 \<Longrightarrow> length (plan (run_calls calls stored)) \<le> 1"
proof (induction calls arbitrary: stored)
  case Nil
  then show ?case by simp
next
  case (Cons c calls)
  obtain call today time_of_day where c: "c = (call, today, time_of_day)" by (cases c)
  from Cons.prems have "length (plan (stored_after call today time_of_day stored)) \<le> 1"
    by (rule length_plan_stored_after)
  then have "length (plan (run_calls calls (stored_after call today time_of_day stored))) \<le> 1"
    by (rule Cons.IH)
  then show ?case unfolding c by simp
qed

lemma length_unreported_dates:
  "length (unreported_dates data today_str) \<le> length (plan data)"
proof -
  have "length (unreported_dates data today_str) \<le> length (dict_keys (plan data))"
    unfolding unreported_dates_def by (simp only: length_sort length_filter_le)
  then show ?thesis by (simp add: dict_keys_def)
qed

text \<open>
  C9. \<open>set_daily_plan\<close> stores a plan mapping that is the one entry for its date, with
  the plan it answers; no other tool changes the plan mapping. So after every sequence
  of calls on the default document the plan mapping has at most one entry, and the
  scan of the readiness gate finds at most one unreported date.
\<close>

theorem plan_is_single_slot:
  "plan (snd (set_daily_plan date task_list ctx energy today time_of_day stored)) =
     [(date, fst (set_daily_plan date task_list ctx energy today time_of_day stored))] \<and>
   (\<not> is_set_daily_plan call \<longrightarrow>
      plan (stored_after call today time_of_day stored) = plan stored) \<and>
   length (plan (run_calls calls (get_default_data start))) \<le> 1 \<and>
   length (unreported_dates (run_calls calls (get_default_data start)) today_str) \<le> 1"
proof -
  have l: "length (plan (run_calls calls (get_default_data start))) \<le> 1"
    by (rule length_plan_run_calls) (simp add: get_default_data_def)
  have "length (unreported_dates (run_calls calls (get_default_data start)) today_str)
        \<le> length (plan (run_calls calls (get_default_data start)))"
    by (rule length_unreported_dates)
  with l have u: "length (unreported_dates (run_calls calls (get_default_data start)) today_str) \<le> 1"
    by linarith
  from plan_set_daily_plan plan_stored_after l u show ?thesis by blast
qed

theorem plan_is_single_slot_witness:
  "\<not> is_set_daily_plan CheckReadiness \<and>
   plan (stored_after CheckReadiness (jan 3) ''09:00:00'' blocked_document) =
     [(''2025-01-01'', example_plan)] \<and>
   length (plan (run_calls
      [(SetDailyPlan ''2025-01-01'' [] ''hectic'' ''high'', jan 1, ''08:00:00''),
       (SetDailyPlan ''2025-01-02'' [] ''normal'' ''low'', jan 2, ''08:00:00'')]
      (get_default_data (jan 1)))) \<le> 1"
proof -
  note t = plan_is_single_slot[where call=CheckReadiness and today="jan 3"
      and time_of_day="''09:00:00''" and stored=blocked_document and start="jan 1"
      and calls="[(SetDailyPlan ''2025-01-01'' [] ''hectic'' ''high'', jan 1, ''08:00:00''),
       (SetDailyPlan ''2025-01-02'' [] ''normal'' ''low'', jan 2, ''08:00:00'')]"]
  have h: "\<not> is_set_daily_plan CheckReadiness"
    by (simp add: is_set_daily_plan_def)
  have p: "plan (stored_after CheckReadiness (jan 3) ''09:00:00'' blocked_document) =
      plan blocked_document"
    by (rule t[THEN conjunct2, THEN conjunct1, THEN mp, OF h])
  have b: "plan blocked_document = [(''2025-01-01'', example_plan)]"
    by (simp add: blocked_document_def)
  from h p b t[THEN conjunct2, THEN conjunct2, THEN conjunct1] show ?thesis by simp
qed

section \<open>Exceptions\<close>

lemma holidays_log_recalculated:
  "holidays_log (analytics (recalculated data today)) = holidays_log (analytics data)"
  by (simp add: recalculated_def with_trends_def with_dedication_def with_burnout_risk_def)

text \<open>
  Where \<open>last_task_date\<close> is absent, empty or a date and the last holiday entry, if
  any, has a date that parses, the tools that recalculate return an answer.
\<close>

lemma tools_return_when_dates_parse:
  assumes "last_task_date_parses stored"
    and "holidays_log (analytics stored) = [] \<or>
         (\<exists>d. strptime (log_date (last (holidays_log (analytics stored)))) = Inr d)"
  shows "\<exists>r. fst (check_readiness_for_planning today stored) = Inr r"
    and "\<exists>r. fst (report args today time_of_day stored) = Inr r"
    and "\<exists>r. fst (get_analytics_context today stored) = Inr r"
proof -
  have rec: "\<exists>r. recommend_rest_or_light_day (recalculated stored today) today = Inr r"
    using assms(2)
    by (auto simp: recommend_rest_or_light_day_def Let_def holidays_log_recalculated)
  show "\<exists>r. fst (check_readiness_for_planning today stored) = Inr r"
    using rec assms(1)
    by (auto simp: check_readiness_for_planning_def Let_def update_full_analytics_parses
        split: list.splits option.splits sum.splits)
  show "\<exists>r. fst (report args today time_of_day stored) = Inr r"
    using assms(1)
    by (simp add: report_def Let_def update_full_analytics_parses split: option.splits)
  show "\<exists>r. fst (get_analytics_context today stored) = Inr r"
    using assms(1) by (simp add: get_analytics_context_def update_full_analytics_parses)
qed

lemma holiday_range_logged:
  "report range_holiday jul_24 ''09:00:00'' (get_default_data jul_24) =
     (Inr (HolidayLogged ''2025-07-15 to 2025-07-23''), after_range_holiday)"
  by code_simp

lemma holiday_range_raises:
  "strptime ''2025-07-15 to 2025-07-23'' = Inl ValueError"
  "fst (check_readiness_for_planning jul_24 after_range_holiday) = Inl ValueError"
  "fst (validate_day_off_request jul_24 after_range_holiday) = Inl ValueError"
  by code_simp+

text \<open>
  C10 (the code departs from the claim). On the default document of 2025-07-24,
  \<open>report\<close> logs a holiday under the range \<open>"2025-07-15 to 2025-07-23"\<close>, the form its
  docstring prescribes for consecutive holidays. From then on
  \<open>check_readiness_for_planning\<close>, in its \<open>READY\<close> branch, and
  \<open>validate_day_off_request\<close> pass that string to \<open>strptime\<close> and raise \<open>ValueError\<close>
  instead of returning a structured result.
\<close>

theorem range_holiday_makes_tools_raise:
  "report range_holiday jul_24 ''09:00:00'' (get_default_data jul_24) =
     (Inr (HolidayLogged ''2025-07-15 to 2025-07-23''), after_range_holiday) \<and>
   log_date (last (holidays_log (analytics after_range_holiday))) =
     ''2025-07-15 to 2025-07-23'' \<and>
   strptime ''2025-07-15 to 2025-07-23'' = Inl ValueError \<and>
   fst (check_readiness_for_planning jul_24 after_range_holiday) = Inl ValueError \<and>
   fst (validate_day_off_request jul_24 after_range_holiday) = Inl ValueError"
  using holiday_range_logged holiday_range_raises
  by (simp add: after_range_holiday_def)

end
